theory Spec2Isabelle
  imports Complex_Main "HOL-Library.AList"
begin

section \<open>Data model\<close>

text \<open>
  The script \<open>kaggle-classification/bin/eval_on_gold.py\<close> works on pandas DataFrames.
  A cell of a DataFrame is a string, an integer, a float or the missing value (pandas'
  NaN, which is what an empty CSV field becomes). Floats are idealised as real numbers:
  rounding, overflow and infinities are not modelled.
\<close>

datatype cell = S string | I int | F real | NaN

text \<open>The exceptions that the script and the library calls it makes can raise.\<close>

datatype error =
    KeyError cell
  | IndexError
  | ValueError
  | TypeError
  | NotFoundError
  | ModelError

text \<open>
  A DataFrame is a header (the column names, in order) and its rows, each row holding
  one cell per column. Rows are addressed by position: the frames of the script carry
  the default index \<open>0..n-1\<close> or a selection of it, and no operation of the script
  reads the index.
\<close>

record frame =
  columns :: "string list"
  rows :: "cell list list"

definition wf_frame :: "frame \<Rightarrow> bool" where
  "wf_frame df \<longleftrightarrow>
     distinct (columns df) \<and> list_all (\<lambda>r. length r = length (columns df)) (rows df)"

text \<open>A Python dict with string keys, in insertion order.\<close>

type_synonym results = "(string \<times> cell) list"

subsection \<open>The pandas operations the script uses\<close>

text \<open>A list comprehension, or an element-wise operation, that raises at the first
  element on which the body raises.\<close>

fun try_map :: "('a \<Rightarrow> error + 'b) \<Rightarrow> 'a list \<Rightarrow> error + 'b list" where
  "try_map f [] = Inr []"
| "try_map f (x # xs) =
     (case f x of
        Inl e \<Rightarrow> Inl e
      | Inr y \<Rightarrow> (case try_map f xs of Inl e \<Rightarrow> Inl e | Inr ys \<Rightarrow> Inr (y # ys)))"

fun index_of :: "'a \<Rightarrow> 'a list \<Rightarrow> nat option" where
  "index_of c [] = None"
| "index_of c (x # xs) = (if x = c then Some 0 else map_option Suc (index_of c xs))"

text \<open>\<open>row[c]\<close> for a column name \<open>c\<close>: the cell under that column, KeyError when
  the row has no such column.\<close>

definition row_get :: "string list \<Rightarrow> cell list \<Rightarrow> string \<Rightarrow> error + cell" where
  "row_get cols row c =
     (case index_of c cols of
        None \<Rightarrow> Inl (KeyError (S c))
      | Some i \<Rightarrow> if i < length row then Inr (row ! i) else Inl (KeyError (S c)))"

text \<open>
  \<open>row[key]\<close> for a key that is itself a cell. A string key is a column name. An integer
  key is not among the (string) column names, and pandas then reads it as a position,
  negative positions counting from the end, IndexError out of range. A float or missing
  key is refused (KeyError here; some pandas releases raise TypeError instead).
\<close>

fun series_getitem :: "string list \<Rightarrow> cell list \<Rightarrow> cell \<Rightarrow> error + cell" where
  "series_getitem cols row (S c) = row_get cols row c"
| "series_getitem cols row (I i) =
     (let n = int (length row); j = (if i < 0 then n + i else i)
      in if 0 \<le> j \<and> j < n then Inr (row ! nat j) else Inl IndexError)"
| "series_getitem cols row (F x) = Inl (KeyError (F x))"
| "series_getitem cols row NaN = Inl (KeyError NaN)"

text \<open>\<open>df[c]\<close>: the cells of column \<open>c\<close>, KeyError when the frame has no such column
  (also when it has no rows).\<close>

definition column :: "frame \<Rightarrow> string \<Rightarrow> error + cell list" where
  "column df c =
     (if c \<in> set (columns df) then try_map (\<lambda>r. row_get (columns df) r c) (rows df)
      else Inl (KeyError (S c)))"

text \<open>\<open>df[mask]\<close> where the mask is computed cell by cell from column \<open>c\<close>: the rows
  whose cell satisfies \<open>P\<close>, in their order.\<close>

definition filter_by :: "frame \<Rightarrow> string \<Rightarrow> (cell \<Rightarrow> bool) \<Rightarrow> error + frame" where
  "filter_by df c P =
     (case column df c of
        Inl e \<Rightarrow> Inl e
      | Inr vs \<Rightarrow> Inr (df\<lparr>rows := map fst (filter (\<lambda>(r, v). P v) (zip (rows df) vs))\<rparr>))"

text \<open>\<open>isin([0,1])\<close>: the integers and floats equal to 0 or 1; no string, no missing
  value.\<close>

fun isin01 :: "cell \<Rightarrow> bool" where
  "isin01 (I i) = (i = 0 \<or> i = 1)"
| "isin01 (F x) = (x = 0 \<or> x = 1)"
| "isin01 (S s) = False"
| "isin01 NaN = False"

section \<open>calculate_auc\<close>

text \<open>\<open>row[row['label']]\<close>: the cell of the row under the column that the row's
  \<open>label\<close> cell names.\<close>

definition score_of :: "string list \<Rightarrow> cell list \<Rightarrow> error + cell" where
  "score_of cols row =
     (case row_get cols row ''label'' of
        Inl e \<Rightarrow> Inl e
      | Inr l \<Rightarrow> series_getitem cols row l)"

text \<open>
  \<open>sklearn.metrics.roc_auc_score\<close> is a library function, not code of the repository:
  it is the parameter \<open>roc\<close>, called with \<open>y_true\<close> and \<open>y_score\<close>.
\<close>

type_synonym roc_fun = "cell list \<Rightarrow> cell list \<Rightarrow> error + real"

definition calculate_auc :: "roc_fun \<Rightarrow> frame \<Rightarrow> error + real" where
  "calculate_auc roc df_gold_scored =
     (case filter_by df_gold_scored ''gold'' isin01 of
        Inl e \<Rightarrow> Inl e
      | Inr df \<Rightarrow>
          (case try_map (score_of (columns df)) (rows df) of
             Inl e \<Rightarrow> Inl e
           | Inr y_score \<Rightarrow>
               (case column df ''gold'' of
                  Inl e \<Rightarrow> Inl e
                | Inr y_true \<Rightarrow> roc y_true y_score)))"

section \<open>score_gold\<close>

text \<open>
  The model object comes from \<open>keras_trainer.model.ModelRunner\<close>, which is outside the
  script: here it is its two members the script uses, the \<open>predict\<close> method (from the
  comment texts to one row of scores per comment) and the list of \<open>labels\<close>.
\<close>

record model =
  predict :: "cell list \<Rightarrow> real list list"
  labels :: "string list"

text \<open>\<open>pd.DataFrame(scores, columns=labels)\<close>: one column per label; ValueError when
  a row of scores has not one score per label.\<close>

definition DataFrame :: "real list list \<Rightarrow> string list \<Rightarrow> error + frame" where
  "DataFrame scores cols =
     (if list_all (\<lambda>r. length r = length cols) scores
      then Inr \<lparr>columns = cols, rows = map (map F) scores\<rparr>
      else Inl ValueError)"

text \<open>
  \<open>pd.concat([a, b], axis=1)\<close> of two frames with the default index: the columns of
  \<open>a\<close> followed by those of \<open>b\<close>, row \<open>i\<close> of \<open>a\<close> beside row \<open>i\<close> of \<open>b\<close>; where
  one frame has fewer rows, its side is filled with missing values.
\<close>

definition pad_rows :: "nat \<Rightarrow> nat \<Rightarrow> cell list list \<Rightarrow> cell list list" where
  "pad_rows n w rs = rs @ replicate (n - length rs) (replicate w NaN)"

definition concat_axis1 :: "frame \<Rightarrow> frame \<Rightarrow> frame" where
  "concat_axis1 a b =
     (let n = max (length (rows a)) (length (rows b))
      in \<lparr>columns = columns a @ columns b,
          rows = map (\<lambda>(r, q). r @ q)
                   (zip (pad_rows n (length (columns a)) (rows a))
                        (pad_rows n (length (columns b)) (rows b)))\<rparr>)"

definition score_gold :: "frame \<Rightarrow> model \<Rightarrow> error + frame" where
  "score_gold df_gold m =
     (case column df_gold ''comment_text'' of
        Inl e \<Rightarrow> Inl e
      | Inr texts \<Rightarrow>
          (case DataFrame (predict m texts) (labels m) of
             Inl e \<Rightarrow> Inl e
           | Inr df_scores \<Rightarrow> Inr (concat_axis1 df_scores df_gold)))"

section \<open>eval_gold\<close>

text \<open>\<open>df[c] = values\<close>: replaces the cells of an existing column, or appends a new
  column at the right. The values are one per row at each use in the script.\<close>

definition set_column :: "frame \<Rightarrow> string \<Rightarrow> cell list \<Rightarrow> frame" where
  "set_column df c vs =
     (case index_of c (columns df) of
        Some i \<Rightarrow> df\<lparr>rows := map (\<lambda>(r, v). r[i := v]) (zip (rows df) vs)\<rparr>
      | None \<Rightarrow> df\<lparr>columns := columns df @ [c],
                    rows := map (\<lambda>(r, v). r @ [v]) (zip (rows df) vs)\<rparr>)"

text \<open>
  \<open>astype('float64')\<close> on one cell: an integer becomes the float of the same value, a
  float and a missing value stay, a string is parsed, ValueError when it is not a
  number. Python's parser of float literals is the parameter \<open>pf\<close>.
\<close>

type_synonym float_parser = "string \<Rightarrow> real option"

fun to_float64 :: "float_parser \<Rightarrow> cell \<Rightarrow> error + cell" where
  "to_float64 pf (I i) = Inr (F (of_int i))"
| "to_float64 pf (F x) = Inr (F x)"
| "to_float64 pf NaN = Inr NaN"
| "to_float64 pf (S s) = (case pf s of None \<Rightarrow> Inl ValueError | Some x \<Rightarrow> Inr (F x))"

text \<open>Line 63: \<open>df['gold'] = df['gold'].astype('float64')\<close>.\<close>

definition gold_astype :: "float_parser \<Rightarrow> frame \<Rightarrow> error + frame" where
  "gold_astype pf df =
     (case column df ''gold'' of
        Inl e \<Rightarrow> Inl e
      | Inr gs \<Rightarrow>
          (case try_map (to_float64 pf) gs of
             Inl e \<Rightarrow> Inl e
           | Inr gs' \<Rightarrow> Inr (set_column df ''gold'' gs')))"

text \<open>\<open>np.abs(a - b)\<close>: TypeError on a string, missing when either side is missing,
  an integer for two integers, a float otherwise.\<close>

fun abs_diff :: "cell \<Rightarrow> cell \<Rightarrow> error + cell" where
  "abs_diff (S s) b = Inl TypeError"
| "abs_diff a (S s) = Inl TypeError"
| "abs_diff NaN b = Inr NaN"
| "abs_diff a NaN = Inr NaN"
| "abs_diff (I i) (I j) = Inr (I \<bar>i - j\<bar>)"
| "abs_diff (I i) (F y) = Inr (F \<bar>of_int i - y\<bar>)"
| "abs_diff (F x) (I j) = Inr (F \<bar>x - of_int j\<bar>)"
| "abs_diff (F x) (F y) = Inr (F \<bar>x - y\<bar>)"

text \<open>Lines 69: \<open>np.abs(row[row['label']] - row['gold'])\<close> for one row.\<close>

definition abs_gold_diff :: "string list \<Rightarrow> cell list \<Rightarrow> error + cell" where
  "abs_gold_diff cols row =
     (case score_of cols row of
        Inl e \<Rightarrow> Inl e
      | Inr s \<Rightarrow>
          (case row_get cols row ''gold'' of
             Inl e \<Rightarrow> Inl e
           | Inr g \<Rightarrow> abs_diff s g))"

text \<open>
  \<open>Series.mean()\<close>: pandas skips missing values (\<open>skipna=True\<close> is the default) and
  averages the others; the mean of no value is missing. TypeError on a string.
\<close>

fun numbers :: "cell list \<Rightarrow> error + real list" where
  "numbers [] = Inr []"
| "numbers (S s # vs) = Inl TypeError"
| "numbers (NaN # vs) = numbers vs"
| "numbers (I i # vs) = (case numbers vs of Inl e \<Rightarrow> Inl e | Inr xs \<Rightarrow> Inr (of_int i # xs))"
| "numbers (F x # vs) = (case numbers vs of Inl e \<Rightarrow> Inl e | Inr xs \<Rightarrow> Inr (x # xs))"

definition mean :: "cell list \<Rightarrow> error + cell" where
  "mean vs =
     (case numbers vs of
        Inl e \<Rightarrow> Inl e
      | Inr xs \<Rightarrow> Inr (if xs = [] then NaN else F (sum_list xs / of_nat (length xs))))"

text \<open>Python's \<open>==\<close> on two cells: numbers compare by value, a missing value equals
  nothing, itself included.\<close>

fun py_eq :: "cell \<Rightarrow> cell \<Rightarrow> bool" where
  "py_eq (S s) (S t) = (s = t)"
| "py_eq (I i) (I j) = (i = j)"
| "py_eq (I i) (F y) = (of_int i = y)"
| "py_eq (F x) (I j) = (x = of_int j)"
| "py_eq (F x) (F y) = (x = y)"
| "py_eq a b = False"

text \<open>\<open>Series.unique()\<close>: the distinct values in order of first appearance; the
  missing value counts as one value.\<close>

definition same_value :: "cell \<Rightarrow> cell \<Rightarrow> bool" where
  "same_value a b \<longleftrightarrow> py_eq a b \<or> (a = NaN \<and> b = NaN)"

fun unique_acc :: "cell list \<Rightarrow> cell list \<Rightarrow> cell list" where
  "unique_acc seen [] = seen"
| "unique_acc seen (v # vs) =
     (if list_ex (same_value v) seen then unique_acc seen vs
      else unique_acc (seen @ [v]) vs)"

definition unique :: "cell list \<Rightarrow> cell list" where
  "unique vs = unique_acc [] vs"

text \<open>\<open>prefix + x\<close> for a string \<open>prefix\<close>: TypeError unless \<open>x\<close> is a string.\<close>

fun str_add :: "string \<Rightarrow> cell \<Rightarrow> error + string" where
  "str_add prefix (S s) = Inr (prefix @ s)"
| "str_add prefix v = Inl TypeError"

text \<open>
  Lines 80 to 86, the loop over the names of one label. In an assignment
  \<open>results[key] = calculate_auc(...)\<close> Python evaluates the right-hand side before the
  key.
\<close>

fun name_loop :: "roc_fun \<Rightarrow> frame \<Rightarrow> cell \<Rightarrow> cell list \<Rightarrow> results \<Rightarrow> error + results" where
  "name_loop roc df_label label [] results = Inr results"
| "name_loop roc df_label label (name # names) results =
     (if py_eq name label then
        (case calculate_auc roc df_label of
           Inl e \<Rightarrow> Inl e
         | Inr auc \<Rightarrow>
             (case str_add ''auc_'' label of
                Inl e \<Rightarrow> Inl e
              | Inr key \<Rightarrow>
                  name_loop roc df_label label names (AList.update key (F auc) results)))
      else
        (case filter_by df_label ''name'' (\<lambda>v. py_eq v name) of
           Inl e \<Rightarrow> Inl e
         | Inr df_label_name \<Rightarrow>
             (case calculate_auc roc df_label_name of
                Inl e \<Rightarrow> Inl e
              | Inr auc \<Rightarrow>
                  (case str_add ''auc_'' label of
                     Inl e \<Rightarrow> Inl e
                   | Inr k \<Rightarrow>
                       (case str_add (k @ ''_'') name of
                          Inl e \<Rightarrow> Inl e
                        | Inr key \<Rightarrow>
                            name_loop roc df_label label names
                              (AList.update key (F auc) results))))))"

text \<open>Lines 75 to 86, the loop over the labels.\<close>

fun label_loop :: "roc_fun \<Rightarrow> frame \<Rightarrow> cell list \<Rightarrow> results \<Rightarrow> error + results" where
  "label_loop roc df [] results = Inr results"
| "label_loop roc df (label # ls) results =
     (case filter_by df ''label'' (\<lambda>v. py_eq v label) of
        Inl e \<Rightarrow> Inl e
      | Inr df_label \<Rightarrow>
          (case column df_label ''name'' of
             Inl e \<Rightarrow> Inl e
           | Inr ns \<Rightarrow>
               (case name_loop roc df_label label (unique ns) results of
                  Inl e \<Rightarrow> Inl e
                | Inr results' \<Rightarrow> label_loop roc df ls results')))"

text \<open>Lines 63 to 70: the two assignments to columns of the frame.\<close>

definition add_abs_gold_diff :: "frame \<Rightarrow> error + frame" where
  "add_abs_gold_diff df =
     (case try_map (abs_gold_diff (columns df)) (rows df) of
        Inl e \<Rightarrow> Inl e
      | Inr ds \<Rightarrow> Inr (set_column df ''abs_gold_diff'' ds))"

text \<open>
  \<open>eval_gold\<close> changes the frame it is given and returns the dict: the model returns
  both, the frame as the caller sees it after the call.
\<close>

definition eval_gold :: "roc_fun \<Rightarrow> float_parser \<Rightarrow> frame \<Rightarrow> error + frame \<times> results" where
  "eval_gold roc pf df_gold_scored =
     (case gold_astype pf df_gold_scored of
        Inl e \<Rightarrow> Inl e
      | Inr df1 \<Rightarrow>
     (case add_abs_gold_diff df1 of
        Inl e \<Rightarrow> Inl e
      | Inr df \<Rightarrow>
     (case column df ''abs_gold_diff'' of
        Inl e \<Rightarrow> Inl e
      | Inr ds \<Rightarrow>
     (case mean ds of
        Inl e \<Rightarrow> Inl e
      | Inr avg \<Rightarrow>
     (case calculate_auc roc df of
        Inl e \<Rightarrow> Inl e
      | Inr auc \<Rightarrow>
     (case column df ''label'' of
        Inl e \<Rightarrow> Inl e
      | Inr ls \<Rightarrow>
     (case label_loop roc df (unique ls)
             (AList.update ''auc_all'' (F auc) (AList.update ''avg_diff'' avg [])) of
        Inl e \<Rightarrow> Inl e
      | Inr results \<Rightarrow> Inr (df, results))))))))"

section \<open>main\<close>

text \<open>
  The command-line flags. \<open>--job-dir\<close> has no default, so it may be absent (Python's
  \<open>None\<close>).
\<close>

record flags =
  gold_path :: string
  output_path :: string
  job_dir :: "string option"
  labels_flag :: string
  embeddings_path :: string

text \<open>What the script writes to a file: the JSON of a dict, or the CSV of a frame
  (\<open>index=False\<close>: the header and the rows).\<close>

datatype content = Json results | Csv frame

text \<open>\<open>'{0}/gold_eval.json'.format(job_dir)\<close>; \<open>None\<close> is formatted as the word.\<close>

definition eval_path :: "flags \<Rightarrow> string" where
  "eval_path FLAGS = (case job_dir FLAGS of None \<Rightarrow> ''None'' | Some d \<Rightarrow> d) @ ''/gold_eval.json''"

text \<open>
  \<open>main\<close> reads the gold CSV, builds the model, scores, evaluates and writes two files.
  The file system it reads is \<open>fs\<close>, from a path to the frame that \<open>read_csv\<close> gives for
  it (\<open>None\<close>: no such file, or not a CSV). The constructor \<open>ModelRunner\<close> is outside the
  script and a parameter, called with the job directory, the embeddings path and the
  labels flag. Opening a file for writing and writing to it is the parameter
  \<open>write_file\<close>, which may raise (\<open>Some e\<close>). The result is the list of files written
  in full, in order, and how the run ended; a write that raises ends the run, and what it
  may leave of its file is not in the list. Printing is not modelled.
\<close>

type_synonym model_runner = "string option \<Rightarrow> string \<Rightarrow> string \<Rightarrow> error + model"

type_synonym writer = "string \<Rightarrow> content \<Rightarrow> error option"

definition main ::
  "roc_fun \<Rightarrow> float_parser \<Rightarrow> model_runner \<Rightarrow> writer \<Rightarrow> flags
     \<Rightarrow> (string \<Rightarrow> frame option) \<Rightarrow> (string \<times> content) list \<times> (error + unit)" where
  "main roc pf ModelRunner write_file FLAGS fs =
     (case fs (gold_path FLAGS) of
        None \<Rightarrow> ([], Inl NotFoundError)
      | Some df_gold \<Rightarrow>
     (case ModelRunner (job_dir FLAGS) (embeddings_path FLAGS) (labels_flag FLAGS) of
        Inl e \<Rightarrow> ([], Inl e)
      | Inr m \<Rightarrow>
     (case score_gold df_gold m of
        Inl e \<Rightarrow> ([], Inl e)
      | Inr df_gold_scored \<Rightarrow>
     (case eval_gold roc pf df_gold_scored of
        Inl e \<Rightarrow> ([], Inl e)
      | Inr (df, results) \<Rightarrow>
     (case write_file (eval_path FLAGS)
             (Json (AList.update ''gold_path'' (S (gold_path FLAGS)) results)) of
        Some e \<Rightarrow> ([], Inl e)
      | None \<Rightarrow>
     (case write_file (output_path FLAGS) (Csv df) of
        Some e \<Rightarrow>
          ([(eval_path FLAGS,
             Json (AList.update ''gold_path'' (S (gold_path FLAGS)) results))],
           Inl e)
      | None \<Rightarrow>
          ([(eval_path FLAGS,
             Json (AList.update ''gold_path'' (S (gold_path FLAGS)) results)),
            (output_path FLAGS, Csv df)],
           Inr ())))))))"

section \<open>A reference AUC for concrete runs\<close>

text \<open>
  To run the script's functions on concrete frames, the parameter \<open>roc\<close> needs a value.
  \<open>roc_auc_ref\<close> stands in for the library function: it refuses (ValueError) scores
  that are not numbers and labels that are not of both classes, and otherwise gives the
  area under the ROC curve as the share of (positive, negative) pairs that the scores
  rank in the right order, a tie counting one half.
\<close>

fun number :: "cell \<Rightarrow> real option" where
  "number (I i) = Some (of_int i)"
| "number (F x) = Some x"
| "number v = None"

definition pair_credit :: "real \<Rightarrow> real \<Rightarrow> real" where
  "pair_credit p n = (if n < p then 1 else if p = n then 1 / 2 else 0)"

definition roc_auc_ref :: roc_fun where
  "roc_auc_ref y_true y_score =
     (if list_ex (\<lambda>s. number s = None) y_score then Inl ValueError
      else
        (let pos = [the (number s). (t, s) \<leftarrow> zip y_true y_score, py_eq t (I 1)];
             neg = [the (number s). (t, s) \<leftarrow> zip y_true y_score, py_eq t (I 0)]
         in if pos = [] \<or> neg = [] then Inl ValueError
            else Inr (sum_list [pair_credit p n. p \<leftarrow> pos, n \<leftarrow> neg]
                      / of_nat (length pos * length neg))))"

section \<open>Notions for stating the properties\<close>

text \<open>
  One pass of the body of the inner loop writes one entry: \<open>key_of\<close> is its key and
  \<open>group_of\<close> the frame whose AUC is its value, both as the two branches of the loop
  body compute them.
\<close>

definition key_of :: "cell \<Rightarrow> cell \<Rightarrow> error + string" where
  "key_of label name =
     (if py_eq name label then str_add ''auc_'' label
      else (case str_add ''auc_'' label of
              Inl e \<Rightarrow> Inl e
            | Inr k \<Rightarrow> str_add (k @ ''_'') name))"

definition group_of :: "frame \<Rightarrow> cell \<Rightarrow> cell \<Rightarrow> error + frame" where
  "group_of df_label label name =
     (if py_eq name label then Inr df_label
      else filter_by df_label ''name'' (\<lambda>v. py_eq v name))"

text \<open>The rows of a frame with a given label, and with a given label and name.\<close>

definition labelled :: "frame \<Rightarrow> string \<Rightarrow> cell list \<Rightarrow> bool" where
  "labelled df l r \<longleftrightarrow> row_get (columns df) r ''label'' = Inr (S l)"

definition named :: "frame \<Rightarrow> string \<Rightarrow> cell list \<Rightarrow> bool" where
  "named df n r \<longleftrightarrow> row_get (columns df) r ''name'' = Inr (S n)"

text \<open>Python's parser of float literals is a parameter too. The concrete frames below
  hold numbers in the gold column, so the parser is never asked: \<open>parse_none\<close> accepts
  no string.\<close>

definition parse_none :: float_parser where
  "parse_none s = None"

text \<open>For concrete runs, a file system on which every write succeeds.\<close>

definition write_ok :: writer where
  "write_ok path c = None"

text \<open>
  The mean as claim C4 words it, taken over every row: the sum of all the terms over
  their count. In float arithmetic a missing term makes the sum missing. It is compared
  with \<open>mean\<close> above, which is what the code calls.
\<close>

definition mean_over_every_row :: "cell list \<Rightarrow> cell" where
  "mean_over_every_row vs =
     (if vs = [] \<or> list_ex (\<lambda>v. number v = None) vs then NaN
      else F (sum_list (map (\<lambda>v. the (number v)) vs) / of_nat (length vs)))"


text \<open>The lookup \<open>row[row['label']]\<close> succeeds through a label that is a string and
  names a column of the row.\<close>

definition finds_score :: "string list \<Rightarrow> cell list \<Rightarrow> bool" where
  "finds_score cols r \<longleftrightarrow>
     (\<exists>l x. row_get cols r ''label'' = Inr (S l) \<and> row_get cols r l = Inr x)"

section \<open>Concrete frames\<close>


text \<open>
  A gold file with the optional \<open>name\<close> column, a model with three heads, and the flags
  and file system of a run on them. The head \<open>insult\<close> has the subcategory
  \<open>personal\<close> only; the last row has the gold value 2.
\<close>

definition gold_example :: frame where
  "gold_example =
     \<lparr>columns = [''comment_text'', ''label'', ''gold'', ''_unit_id'', ''name''],
      rows = [[S ''..and kill things'', S ''threat'', I 0, I 15190, S ''threat''],
              [S ''Die!'', S ''threat'', I 1, I 15193, S ''threat''],
              [S ''FU'', S ''obscene'', I 1, I 15089, S ''obscene''],
              [S ''Have an apple'', S ''obscene'', I 0, I 15789, S ''obscene''],
              [S ''You fool'', S ''insult'', I 1, I 15800, S ''personal''],
              [S ''Nice day'', S ''insult'', I 0, I 15801, S ''personal''],
              [S ''Hmm'', S ''threat'', I 2, I 15802, S ''threat'']]\<rparr>"

definition scores_example :: "cell \<Rightarrow> real list" where
  "scores_example text =
     (if text = S ''Die!'' then [3 / 4, 1 / 4, 1 / 4]
      else if text = S ''FU'' then [1 / 4, 3 / 4, 1 / 4]
      else if text = S ''You fool'' then [1 / 4, 1 / 4, 3 / 4]
      else [1 / 4, 1 / 4, 1 / 4])"

definition model_example :: model where
  "model_example =
     \<lparr>predict = map scores_example, labels = [''threat'', ''obscene'', ''insult'']\<rparr>"

definition runner_example :: model_runner where
  "runner_example job emb labs = Inr model_example"

definition flags_example :: flags where
  "flags_example =
     \<lparr>gold_path = ''gold.csv'', output_path = ''gold_scored.csv'', job_dir = Some ''job'',
      labels_flag = ''threat,obscene,insult'',
      embeddings_path = ''local_data/glove.6B/glove.6B.100d.txt''\<rparr>"

definition fs_example :: "string \<Rightarrow> frame option" where
  "fs_example path = (if path = ''gold.csv'' then Some gold_example else None)"

text \<open>The frame that \<open>score_gold\<close> makes of \<open>gold_example\<close>, and the same frame as
  \<open>eval_gold\<close> leaves it.\<close>

definition scored_example :: frame where
  "scored_example =
     \<lparr>columns = [''threat'', ''obscene'', ''insult'',
                 ''comment_text'', ''label'', ''gold'', ''_unit_id'', ''name''],
      rows = [[F (1 / 4), F (1 / 4), F (1 / 4),
                 S ''..and kill things'', S ''threat'', I 0, I 15190, S ''threat''],
              [F (3 / 4), F (1 / 4), F (1 / 4),
                 S ''Die!'', S ''threat'', I 1, I 15193, S ''threat''],
              [F (1 / 4), F (3 / 4), F (1 / 4),
                 S ''FU'', S ''obscene'', I 1, I 15089, S ''obscene''],
              [F (1 / 4), F (1 / 4), F (1 / 4),
                 S ''Have an apple'', S ''obscene'', I 0, I 15789, S ''obscene''],
              [F (1 / 4), F (1 / 4), F (3 / 4),
                 S ''You fool'', S ''insult'', I 1, I 15800, S ''personal''],
              [F (1 / 4), F (1 / 4), F (1 / 4),
                 S ''Nice day'', S ''insult'', I 0, I 15801, S ''personal''],
              [F (1 / 4), F (1 / 4), F (1 / 4),
                 S ''Hmm'', S ''threat'', I 2, I 15802, S ''threat'']]\<rparr>"

definition evaluated_example :: frame where
  "evaluated_example =
     \<lparr>columns = [''threat'', ''obscene'', ''insult'',
                 ''comment_text'', ''label'', ''gold'', ''_unit_id'', ''name'',
                 ''abs_gold_diff''],
      rows = [[F (1 / 4), F (1 / 4), F (1 / 4),
                 S ''..and kill things'', S ''threat'', F 0, I 15190, S ''threat'', F (1 / 4)],
              [F (3 / 4), F (1 / 4), F (1 / 4),
                 S ''Die!'', S ''threat'', F 1, I 15193, S ''threat'', F (1 / 4)],
              [F (1 / 4), F (3 / 4), F (1 / 4),
                 S ''FU'', S ''obscene'', F 1, I 15089, S ''obscene'', F (1 / 4)],
              [F (1 / 4), F (1 / 4), F (1 / 4),
                 S ''Have an apple'', S ''obscene'', F 0, I 15789, S ''obscene'', F (1 / 4)],
              [F (1 / 4), F (1 / 4), F (3 / 4),
                 S ''You fool'', S ''insult'', F 1, I 15800, S ''personal'', F (1 / 4)],
              [F (1 / 4), F (1 / 4), F (1 / 4),
                 S ''Nice day'', S ''insult'', F 0, I 15801, S ''personal'', F (1 / 4)],
              [F (1 / 4), F (1 / 4), F (1 / 4),
                 S ''Hmm'', S ''threat'', F 2, I 15802, S ''threat'', F (7 / 4)]]\<rparr>"

definition results_example :: results where
  "results_example =
     [(''avg_diff'', F (13 / 28)), (''auc_all'', F 1), (''auc_threat'', F 1),
      (''auc_obscene'', F 1), (''auc_insult_personal'', F 1)]"

text \<open>A scored frame whose third row has no gold value (an empty field of the CSV),
  and the same frame as \<open>eval_gold\<close> leaves it.\<close>

definition missing_gold_example :: frame where
  "missing_gold_example =
     \<lparr>columns = [''threat'', ''label'', ''gold'', ''name''],
      rows = [[F (3 / 4), S ''threat'', F 1, S ''threat''],
              [F (1 / 4), S ''threat'', F 0, S ''threat''],
              [F (1 / 2), S ''threat'', NaN, S ''threat'']]\<rparr>"

definition missing_gold_evaluated :: frame where
  "missing_gold_evaluated =
     \<lparr>columns = [''threat'', ''label'', ''gold'', ''name'', ''abs_gold_diff''],
      rows = [[F (3 / 4), S ''threat'', F 1, S ''threat'', F (1 / 4)],
              [F (1 / 4), S ''threat'', F 0, S ''threat'', F (1 / 4)],
              [F (1 / 2), S ''threat'', NaN, S ''threat'', NaN]]\<rparr>"

text \<open>
  A scored frame in which two label/name combinations give one key: label \<open>insult\<close>
  with name \<open>personal\<close>, and label \<open>insult_personal\<close> with the name equal to the label.
  \<open>clash_evaluated\<close> is the frame as \<open>eval_gold\<close> leaves it.
\<close>

definition clash_example :: frame where
  "clash_example =
     \<lparr>columns = [''insult'', ''insult_personal'', ''label'', ''gold'', ''name''],
      rows = [[F (3 / 4), F (1 / 4), S ''insult'', I 1, S ''personal''],
              [F (1 / 4), F (1 / 4), S ''insult'', I 0, S ''personal''],
              [F (1 / 4), F (1 / 4), S ''insult_personal'', I 1, S ''insult_personal''],
              [F (1 / 4), F (3 / 4), S ''insult_personal'', I 0, S ''insult_personal'']]\<rparr>"

definition clash_evaluated :: frame where
  "clash_evaluated =
     \<lparr>columns = [''insult'', ''insult_personal'', ''label'', ''gold'', ''name'',
                 ''abs_gold_diff''],
      rows = [[F (3 / 4), F (1 / 4), S ''insult'', F 1, S ''personal'', F (1 / 4)],
              [F (1 / 4), F (1 / 4), S ''insult'', F 0, S ''personal'', F (1 / 4)],
              [F (1 / 4), F (1 / 4), S ''insult_personal'', F 1, S ''insult_personal'',
                 F (3 / 4)],
              [F (1 / 4), F (3 / 4), S ''insult_personal'', F 0, S ''insult_personal'',
                 F (3 / 4)]]\<rparr>"

text \<open>
  The example gold data of the script's header comment, which has no \<open>name\<close> column,
  and a model with the default labels of the \<open>--labels\<close> flag that scores every
  comment 1/2 on every head.
\<close>

definition documented_gold :: frame where
  "documented_gold =
     \<lparr>columns = [''comment_text'', ''label'', ''gold'', ''_unit_id''],
      rows = [[S ''..and kill things'', S ''threat'', I 0, I 15190],
              [S ''Die!'', S ''threat'', I 1, I 15193],
              [S ''FU'', S ''obscene'', I 1, I 15089],
              [S ''Have an apple'', S ''flirtation'', I 0, I 15789]]\<rparr>"

definition default_model :: model where
  "default_model =
     \<lparr>predict = map (\<lambda>text. [1 / 2, 1 / 2, 1 / 2, 1 / 2, 1 / 2, 1 / 2, 1 / 2, 1 / 2]),
      labels = [''threat'', ''flirtation'', ''identity_hate'', ''insult'', ''obscene'',
                ''sexual_explicit'', ''frac_very_neg'', ''frac_neg'']\<rparr>"

definition documented_scored :: frame where
  "documented_scored =
     \<lparr>columns = [''threat'', ''flirtation'', ''identity_hate'', ''insult'', ''obscene'',
                 ''sexual_explicit'', ''frac_very_neg'', ''frac_neg'',
                 ''comment_text'', ''label'', ''gold'', ''_unit_id''],
      rows = [[F (1 / 2), F (1 / 2), F (1 / 2), F (1 / 2), F (1 / 2), F (1 / 2), F (1 / 2), F (1 / 2),
                 S ''..and kill things'', S ''threat'', I 0, I 15190],
              [F (1 / 2), F (1 / 2), F (1 / 2), F (1 / 2), F (1 / 2), F (1 / 2), F (1 / 2), F (1 / 2),
                 S ''Die!'', S ''threat'', I 1, I 15193],
              [F (1 / 2), F (1 / 2), F (1 / 2), F (1 / 2), F (1 / 2), F (1 / 2), F (1 / 2), F (1 / 2),
                 S ''FU'', S ''obscene'', I 1, I 15089],
              [F (1 / 2), F (1 / 2), F (1 / 2), F (1 / 2), F (1 / 2), F (1 / 2), F (1 / 2), F (1 / 2),
                 S ''Have an apple'', S ''flirtation'', I 0, I 15789]]\<rparr>"






text \<open>
  A scored frame whose one label has two names, and the same frame as \<open>eval_gold\<close>
  leaves it. The scores rank the rows named \<open>personal\<close> rightly and the rows named
  \<open>general\<close> wrongly.
\<close>

definition subcategory_example :: frame where
  "subcategory_example =
     \<lparr>columns = [''insult'', ''label'', ''gold'', ''name''],
      rows = [[F (3 / 4), S ''insult'', I 1, S ''personal''],
              [F (1 / 4), S ''insult'', I 0, S ''personal''],
              [F (1 / 4), S ''insult'', I 1, S ''general''],
              [F (3 / 4), S ''insult'', I 0, S ''general'']]\<rparr>"

definition subcategory_evaluated :: frame where
  "subcategory_evaluated =
     \<lparr>columns = [''insult'', ''label'', ''gold'', ''name'', ''abs_gold_diff''],
      rows = [[F (3 / 4), S ''insult'', F 1, S ''personal'', F (1 / 4)],
              [F (1 / 4), S ''insult'', F 0, S ''personal'', F (1 / 4)],
              [F (1 / 4), S ''insult'', F 1, S ''general'', F (3 / 4)],
              [F (3 / 4), S ''insult'', F 0, S ''general'', F (3 / 4)]]\<rparr>"

definition subcategory_results :: results where
  "subcategory_results =
     [(''avg_diff'', F (1 / 2)), (''auc_all'', F (1 / 2)),
      (''auc_insult_personal'', F 1), (''auc_insult_general'', F 0)]"

text \<open>A scored frame that already has a column \<open>abs_gold_diff\<close>, and the same frame as
  \<open>eval_gold\<close> leaves it.\<close>

definition has_diff_example :: frame where
  "has_diff_example =
     \<lparr>columns = [''threat'', ''label'', ''gold'', ''name'', ''abs_gold_diff''],
      rows = [[F (3 / 4), S ''threat'', I 1, S ''threat'', I 9],
              [F (1 / 4), S ''threat'', I 0, S ''threat'', I 9]]\<rparr>"

definition has_diff_evaluated :: frame where
  "has_diff_evaluated =
     \<lparr>columns = [''threat'', ''label'', ''gold'', ''name'', ''abs_gold_diff''],
      rows = [[F (3 / 4), S ''threat'', F 1, S ''threat'', F (1 / 4)],
              [F (1 / 4), S ''threat'', F 0, S ''threat'', F (1 / 4)]]\<rparr>"

text \<open>
  A gold file in which two rows carry the label \<open>gold\<close>, which is no head of the model
  but the name of a column; a model with the one head \<open>threat\<close>; the scored frame and
  the frame as \<open>eval_gold\<close> leaves it.
\<close>

definition column_label_gold :: frame where
  "column_label_gold =
     \<lparr>columns = [''comment_text'', ''label'', ''gold'', ''name''],
      rows = [[S ''Die!'', S ''threat'', I 1, S ''threat''],
              [S ''Have an apple'', S ''threat'', I 0, S ''threat''],
              [S ''FU'', S ''gold'', I 1, S ''gold''],
              [S ''Nice day'', S ''gold'', I 0, S ''gold'']]\<rparr>"

definition threat_model :: model where
  "threat_model =
     \<lparr>predict = map (\<lambda>text. if text = S ''Die!'' then [3 / 4] else [1 / 4]),
      labels = [''threat'']\<rparr>"

definition column_label_scored :: frame where
  "column_label_scored =
     \<lparr>columns = [''threat'', ''comment_text'', ''label'', ''gold'', ''name''],
      rows = [[F (3 / 4), S ''Die!'', S ''threat'', I 1, S ''threat''],
              [F (1 / 4), S ''Have an apple'', S ''threat'', I 0, S ''threat''],
              [F (1 / 4), S ''FU'', S ''gold'', I 1, S ''gold''],
              [F (1 / 4), S ''Nice day'', S ''gold'', I 0, S ''gold'']]\<rparr>"

definition column_label_evaluated :: frame where
  "column_label_evaluated =
     \<lparr>columns = [''threat'', ''comment_text'', ''label'', ''gold'', ''name'',
                 ''abs_gold_diff''],
      rows = [[F (3 / 4), S ''Die!'', S ''threat'', F 1, S ''threat'', F (1 / 4)],
              [F (1 / 4), S ''Have an apple'', S ''threat'', F 0, S ''threat'', F (1 / 4)],
              [F (1 / 4), S ''FU'', S ''gold'', F 1, S ''gold'', F 0],
              [F (1 / 4), S ''Nice day'', S ''gold'', F 0, S ''gold'', F 0]]\<rparr>"

text \<open>The frame that \<open>score_gold\<close> makes of \<open>documented_gold\<close> with \<open>model_example\<close>,
  which has no head \<open>flirtation\<close>.\<close>

definition flirtation_scored :: frame where
  "flirtation_scored =
     \<lparr>columns = [''threat'', ''obscene'', ''insult'',
                 ''comment_text'', ''label'', ''gold'', ''_unit_id''],
      rows = [[F (1 / 4), F (1 / 4), F (1 / 4),
                 S ''..and kill things'', S ''threat'', I 0, I 15190],
              [F (3 / 4), F (1 / 4), F (1 / 4), S ''Die!'', S ''threat'', I 1, I 15193],
              [F (1 / 4), F (3 / 4), F (1 / 4), S ''FU'', S ''obscene'', I 1, I 15089],
              [F (1 / 4), F (1 / 4), F (1 / 4),
                 S ''Have an apple'', S ''flirtation'', I 0, I 15789]]\<rparr>"

section \<open>Properties of the frame operations\<close>

lemma try_map_Inr_iff:
  "try_map f xs = Inr ys \<longleftrightarrow> list_all2 (\<lambda>x y. f x = Inr y) xs ys"
proof
  show "try_map f xs = Inr ys \<Longrightarrow> list_all2 (\<lambda>x y. f x = Inr y) xs ys"
    by (induction xs arbitrary: ys) (auto split: sum.splits)
  show "list_all2 (\<lambda>x y. f x = Inr y) xs ys \<Longrightarrow> try_map f xs = Inr ys"
    by (induction xs ys rule: list_all2_induct) auto
qed

lemma try_map_length: "try_map f xs = Inr ys \<Longrightarrow> length ys = length xs"
  by (auto simp: try_map_Inr_iff dest: list_all2_lengthD)

lemma try_map_cong:
  "(\<And>x. x \<in> set xs \<Longrightarrow> f x = g x) \<Longrightarrow> try_map f xs = try_map g xs"
  by (induction xs) (auto split: sum.splits)



lemma column_Inr_iff:
  "column df c = Inr vs \<longleftrightarrow>
     c \<in> set (columns df) \<and> list_all2 (\<lambda>r v. row_get (columns df) r c = Inr v) (rows df) vs"
  by (simp add: column_def try_map_Inr_iff)


lemma filter_by_Inr:
  "filter_by df c P = Inr d \<longleftrightarrow>
     (\<exists>vs. column df c = Inr vs \<and>
        d = df\<lparr>rows := map fst (filter (\<lambda>(r, v). P v) (zip (rows df) vs))\<rparr>)"
  by (auto simp: filter_by_def split: sum.splits)

lemma index_of_None_iff: "index_of c xs = None \<longleftrightarrow> c \<notin> set xs"
  by (induction xs) auto

lemma index_of_Some:
  "index_of c xs = Some i \<Longrightarrow> i < length xs \<and> xs ! i = c"
  by (induction xs arbitrary: i) (auto split: if_splits)

lemma index_of_Some_mem: "index_of c xs = Some i \<Longrightarrow> c \<in> set xs"
  by (auto dest: index_of_Some)

lemma index_of_snoc:
  "index_of c' (xs @ [c]) =
     (case index_of c' xs of
        Some i \<Rightarrow> Some i
      | None \<Rightarrow> if c = c' then Some (length xs) else None)"
  by (induction xs) (auto split: option.splits)

lemma index_of_inj:
  "index_of c xs = Some i \<Longrightarrow> index_of c' xs = Some i \<Longrightarrow> c = c'"
  by (auto dest!: index_of_Some)

lemma row_get_update_same:
  "index_of c cols = Some i \<Longrightarrow> i < length r \<Longrightarrow> row_get cols (r[i := v]) c = Inr v"
  by (simp add: row_get_def)

lemma row_get_update_other:
  assumes "index_of c cols = Some i" "c' \<noteq> c"
  shows "row_get cols (r[i := v]) c' = row_get cols r c'"
proof (cases "index_of c' cols")
  case None
  then show ?thesis by (simp add: row_get_def)
next
  case (Some j)
  with assms have "j \<noteq> i" by (auto dest: index_of_inj)
  with Some show ?thesis by (simp add: row_get_def)
qed

lemma row_get_snoc_same:
  "c \<notin> set cols \<Longrightarrow> length r = length cols \<Longrightarrow> row_get (cols @ [c]) (r @ [v]) c = Inr v"
  by (simp add: row_get_def index_of_snoc index_of_None_iff [THEN iffD2] nth_append)

lemma row_get_snoc_other:
  "c' \<noteq> c \<Longrightarrow> length r = length cols \<Longrightarrow>
     row_get (cols @ [c]) (r @ [v]) c' = row_get cols r c'"
  by (auto simp: row_get_def index_of_snoc nth_append dest: index_of_Some split: option.splits)

lemma wf_frame_rowD:
  "wf_frame df \<Longrightarrow> r \<in> set (rows df) \<Longrightarrow> length r = length (columns df)"
  by (simp add: wf_frame_def list_all_iff)

lemma columns_set_column:
  "columns (set_column df c vs) =
     (if c \<in> set (columns df) then columns df else columns df @ [c])"
  by (auto simp: set_column_def index_of_None_iff dest: index_of_Some_mem split: option.splits)

lemma length_rows_set_column:
  "length vs = length (rows df) \<Longrightarrow> length (rows (set_column df c vs)) = length (rows df)"
  by (simp add: set_column_def split: option.splits)

lemma wf_set_column:
  assumes "wf_frame df"
  shows "wf_frame (set_column df c vs)"
proof (cases "index_of c (columns df)")
  case None
  then have "c \<notin> set (columns df)" by (simp add: index_of_None_iff)
  with assms None show ?thesis
    by (auto simp: wf_frame_def set_column_def list_all_iff dest: set_zip_leftD)
next
  case (Some i)
  with assms show ?thesis
    by (auto simp: wf_frame_def set_column_def list_all_iff dest: set_zip_leftD)
qed

lemma column_set_column_same:
  assumes "wf_frame df" "length vs = length (rows df)"
  shows "column (set_column df c vs) c = Inr vs"
proof (cases "index_of c (columns df)")
  case None
  then have notin: "c \<notin> set (columns df)" by (simp add: index_of_None_iff)
  have "list_all2 (\<lambda>r v. row_get (columns df @ [c]) r c = Inr v)
          (map (\<lambda>(r, v). r @ [v]) (zip (rows df) vs)) vs"
    using assms notin
    by (auto simp: list_all2_conv_all_nth row_get_snoc_same wf_frame_def list_all_iff)
  with None show ?thesis
    by (simp add: column_Inr_iff set_column_def)
next
  case (Some i)
  then have "i < length (columns df)" and "c \<in> set (columns df)"
    by (auto dest: index_of_Some)
  moreover have "list_all2 (\<lambda>r v. row_get (columns df) r c = Inr v)
          (map (\<lambda>(r, v). r[i := v]) (zip (rows df) vs)) vs"
    using assms Some \<open>i < length (columns df)\<close>
    by (auto simp: list_all2_conv_all_nth row_get_update_same wf_frame_def list_all_iff)
  ultimately show ?thesis using Some
    by (simp add: column_Inr_iff set_column_def)
qed

lemma try_map_zip:
  "length rs = length vs \<Longrightarrow> (\<And>r v. r \<in> set rs \<Longrightarrow> f (g r v) = h r) \<Longrightarrow>
     try_map f (map (\<lambda>(r, v). g r v) (zip rs vs)) = try_map h rs"
  by (induction rs vs rule: list_induct2) (auto split: sum.splits)

lemma column_set_column_other:
  assumes "wf_frame df" "length vs = length (rows df)" "c' \<noteq> c"
  shows "column (set_column df c vs) c' = column df c'"
proof (cases "index_of c (columns df)")
  case None
  have "try_map (\<lambda>r. row_get (columns df @ [c]) r c')
          (map (\<lambda>(r, v). r @ [v]) (zip (rows df) vs))
        = try_map (\<lambda>r. row_get (columns df) r c') (rows df)"
    using assms by (intro try_map_zip) (auto simp: row_get_snoc_other wf_frame_rowD)
  with None assms(3) show ?thesis
    by (auto simp: column_def set_column_def)
next
  case (Some i)
  have "try_map (\<lambda>r. row_get (columns df) r c')
          (map (\<lambda>(r, v). r[i := v]) (zip (rows df) vs))
        = try_map (\<lambda>r. row_get (columns df) r c') (rows df)"
    using assms Some by (intro try_map_zip) (auto simp: row_get_update_other)
  with Some show ?thesis
    by (auto simp: column_def set_column_def)
qed

subsection \<open>The stages of eval_gold\<close>

lemma eval_gold_Inr_iff:
  "eval_gold roc pf df = Inr (df', res) \<longleftrightarrow>
     (\<exists>df1 ds avg auc ls.
        gold_astype pf df = Inr df1 \<and> add_abs_gold_diff df1 = Inr df' \<and>
        column df' ''abs_gold_diff'' = Inr ds \<and> mean ds = Inr avg \<and>
        calculate_auc roc df' = Inr auc \<and> column df' ''label'' = Inr ls \<and>
        label_loop roc df' (unique ls)
          (AList.update ''auc_all'' (F auc) (AList.update ''avg_diff'' avg [])) = Inr res)"
  by (auto simp: eval_gold_def split: sum.splits)

lemma gold_astype_Inr_iff:
  "gold_astype pf df = Inr df1 \<longleftrightarrow>
     (\<exists>gs gs'. column df ''gold'' = Inr gs \<and> try_map (to_float64 pf) gs = Inr gs' \<and>
        df1 = set_column df ''gold'' gs')"
  by (auto simp: gold_astype_def split: sum.splits)

lemma add_abs_gold_diff_Inr_iff:
  "add_abs_gold_diff df1 = Inr df' \<longleftrightarrow>
     (\<exists>ds. try_map (abs_gold_diff (columns df1)) (rows df1) = Inr ds \<and>
        df' = set_column df1 ''abs_gold_diff'' ds)"
  by (auto simp: add_abs_gold_diff_def split: sum.splits)

lemma column_length: "column df c = Inr vs \<Longrightarrow> length vs = length (rows df)"
  by (auto simp: column_def try_map_length split: if_splits)

lemma column_mem: "column df c = Inr vs \<Longrightarrow> c \<in> set (columns df)"
  by (simp add: column_Inr_iff)

lemma to_float64_is_float: "to_float64 pf v = Inr w \<Longrightarrow> w = NaN \<or> (\<exists>x. w = F x)"
  by (cases v) (auto split: option.splits)

text \<open>What the two assignments of \<open>eval_gold\<close> do to a well-formed frame.\<close>

lemma eval_gold_frames:
  assumes wf: "wf_frame df" and ev: "eval_gold roc pf df = Inr (df', res)"
  obtains gs gs' ds where
    "column df ''gold'' = Inr gs" "try_map (to_float64 pf) gs = Inr gs'"
    "try_map (abs_gold_diff (columns df)) (rows (set_column df ''gold'' gs')) = Inr ds"
    "df' = set_column (set_column df ''gold'' gs') ''abs_gold_diff'' ds"
    "length gs' = length (rows df)" "length ds = length (rows df)"
    "wf_frame (set_column df ''gold'' gs')" "wf_frame df'"
    "columns (set_column df ''gold'' gs') = columns df"
proof -
  from ev obtain df1 where a: "gold_astype pf df = Inr df1" and b: "add_abs_gold_diff df1 = Inr df'"
    by (auto simp: eval_gold_Inr_iff)
  from a obtain gs gs' where g: "column df ''gold'' = Inr gs"
    "try_map (to_float64 pf) gs = Inr gs'" "df1 = set_column df ''gold'' gs'"
    by (auto simp: gold_astype_Inr_iff)
  from b obtain ds where d: "try_map (abs_gold_diff (columns df1)) (rows df1) = Inr ds"
    "df' = set_column df1 ''abs_gold_diff'' ds"
    by (auto simp: add_abs_gold_diff_Inr_iff)
  have len: "length gs' = length (rows df)"
    using g by (simp add: try_map_length column_length)
  have cols: "columns df1 = columns df"
    using g by (simp add: columns_set_column column_mem)
  have len1: "length (rows df1) = length (rows df)"
    using g len by (simp add: length_rows_set_column)
  have "length ds = length (rows df)"
    using d len1 by (simp add: try_map_length)
  moreover have "wf_frame df1" using wf g by (simp add: wf_set_column)
  moreover from this have "wf_frame df'" using d by (simp add: wf_set_column)
  ultimately show ?thesis
    using that g d len cols by simp
qed

subsection \<open>The loops of eval_gold\<close>

lemma name_loop_Cons:
  "name_loop roc dfl label (name # names) res =
     (case group_of dfl label name of
        Inl e \<Rightarrow> Inl e
      | Inr g \<Rightarrow>
          (case calculate_auc roc g of
             Inl e \<Rightarrow> Inl e
           | Inr a \<Rightarrow>
               (case key_of label name of
                  Inl e \<Rightarrow> Inl e
                | Inr k \<Rightarrow> name_loop roc dfl label names (AList.update k (F a) res))))"
  by (simp add: group_of_def key_of_def split: sum.splits)

lemma name_loop_keys:
  "name_loop roc dfl label names res = Inr res' \<Longrightarrow>
     fst ` set res' = fst ` set res \<union> {k. \<exists>name \<in> set names. key_of label name = Inr k}"
proof (induction names arbitrary: res)
  case Nil
  then show ?case by simp
next
  case (Cons name names)
  from Cons.prems obtain g a k where
    "key_of label name = Inr k"
    "name_loop roc dfl label names (AList.update k (F a) res) = Inr res'"
    by (auto simp: name_loop_Cons simp del: name_loop.simps split: sum.splits)
  with Cons.IH [of "AList.update k (F a) res"] show ?case
    by (auto simp: dom_update)
qed

lemma name_loop_sound:
  "name_loop roc dfl label names res = Inr res' \<Longrightarrow> map_of res' k = Some v \<Longrightarrow>
     (map_of res k = Some v \<and> (\<forall>name \<in> set names. key_of label name \<noteq> Inr k)) \<or>
     (\<exists>name \<in> set names. \<exists>g a. group_of dfl label name = Inr g \<and>
        calculate_auc roc g = Inr a \<and> key_of label name = Inr k \<and> v = F a)"
proof (induction names arbitrary: res)
  case Nil
  then show ?case by simp
next
  case (Cons name names)
  from Cons.prems(1) obtain g a k' where step:
    "group_of dfl label name = Inr g" "calculate_auc roc g = Inr a"
    "key_of label name = Inr k'"
    "name_loop roc dfl label names (AList.update k' (F a) res) = Inr res'"
    by (auto simp: name_loop_Cons simp del: name_loop.simps split: sum.splits)
  from Cons.IH [OF step(4) Cons.prems(2)] show ?case
    using step(1-3) by (auto simp: update_conv' split: if_splits)
qed

lemma name_loop_complete:
  "name_loop roc dfl label names res = Inr res' \<Longrightarrow> name \<in> set names \<Longrightarrow>
     \<exists>g a k. group_of dfl label name = Inr g \<and> calculate_auc roc g = Inr a \<and>
       key_of label name = Inr k"
proof (induction names arbitrary: res)
  case Nil
  then show ?case by simp
next
  case (Cons x names)
  from Cons.prems(1) obtain g a k' where step:
    "group_of dfl label x = Inr g" "calculate_auc roc g = Inr a"
    "key_of label x = Inr k'"
    "name_loop roc dfl label names (AList.update k' (F a) res) = Inr res'"
    by (auto simp: name_loop_Cons simp del: name_loop.simps split: sum.splits)
  show ?case
  proof (cases "name = x")
    case True
    with step show ?thesis by blast
  next
    case False
    with Cons.prems(2) have "name \<in> set names" by simp
    from Cons.IH [OF step(4) this] show ?thesis .
  qed
qed

text \<open>The entries that the outer loop writes for a list of labels.\<close>

lemma label_loop_Cons_Inr:
  "label_loop roc df (label # ls) res = Inr res' \<longleftrightarrow>
     (\<exists>dfl ns mid. filter_by df ''label'' (\<lambda>v. py_eq v label) = Inr dfl \<and>
        column dfl ''name'' = Inr ns \<and>
        name_loop roc dfl label (unique ns) res = Inr mid \<and>
        label_loop roc df ls mid = Inr res')"
  by (auto split: sum.splits)

lemma label_loop_keys:
  "label_loop roc df ls res = Inr res' \<Longrightarrow>
     fst ` set res' = fst ` set res \<union>
       {k. \<exists>label \<in> set ls. \<exists>dfl ns. filter_by df ''label'' (\<lambda>v. py_eq v label) = Inr dfl \<and>
            column dfl ''name'' = Inr ns \<and>
            (\<exists>name \<in> set (unique ns). key_of label name = Inr k)}"
proof (induction ls arbitrary: res)
  case Nil
  then show ?case by simp
next
  case (Cons label ls)
  from Cons.prems obtain dfl ns mid where step:
    "filter_by df ''label'' (\<lambda>v. py_eq v label) = Inr dfl" "column dfl ''name'' = Inr ns"
    "name_loop roc dfl label (unique ns) res = Inr mid" "label_loop roc df ls mid = Inr res'"
    unfolding label_loop_Cons_Inr by blast
  from name_loop_keys [OF step(3)] Cons.IH [OF step(4)] step(1,2)
  show ?case by auto
qed

lemma label_loop_sound:
  "label_loop roc df ls res = Inr res' \<Longrightarrow> map_of res' k = Some v \<Longrightarrow>
     (map_of res k = Some v \<and>
      (\<forall>label \<in> set ls. \<forall>dfl ns. filter_by df ''label'' (\<lambda>v. py_eq v label) = Inr dfl \<longrightarrow>
            column dfl ''name'' = Inr ns \<longrightarrow>
            (\<forall>name \<in> set (unique ns). key_of label name \<noteq> Inr k))) \<or>
     (\<exists>label \<in> set ls. \<exists>dfl ns. filter_by df ''label'' (\<lambda>v. py_eq v label) = Inr dfl \<and>
        column dfl ''name'' = Inr ns \<and>
        (\<exists>name \<in> set (unique ns). \<exists>g a. group_of dfl label name = Inr g \<and>
           calculate_auc roc g = Inr a \<and> key_of label name = Inr k \<and> v = F a))"
proof (induction ls arbitrary: res)
  case Nil
  then show ?case by simp
next
  case (Cons label ls)
  from Cons.prems(1) obtain dfl ns mid where step:
    "filter_by df ''label'' (\<lambda>v. py_eq v label) = Inr dfl" "column dfl ''name'' = Inr ns"
    "name_loop roc dfl label (unique ns) res = Inr mid" "label_loop roc df ls mid = Inr res'"
    unfolding label_loop_Cons_Inr by blast
  from Cons.IH [OF step(4) Cons.prems(2)] name_loop_sound [OF step(3), of k v] step(1,2)
  show ?case by auto
qed

lemma label_loop_complete:
  "label_loop roc df ls res = Inr res' \<Longrightarrow> label \<in> set ls \<Longrightarrow>
     \<exists>dfl ns. filter_by df ''label'' (\<lambda>v. py_eq v label) = Inr dfl \<and>
        column dfl ''name'' = Inr ns \<and>
        (\<forall>name \<in> set (unique ns). \<exists>g a k. group_of dfl label name = Inr g \<and>
           calculate_auc roc g = Inr a \<and> key_of label name = Inr k)"
proof (induction ls arbitrary: res)
  case Nil
  then show ?case by simp
next
  case (Cons x ls)
  from Cons.prems(1) obtain dfl ns mid where step:
    "filter_by df ''label'' (\<lambda>v. py_eq v x) = Inr dfl" "column dfl ''name'' = Inr ns"
    "name_loop roc dfl x (unique ns) res = Inr mid" "label_loop roc df ls mid = Inr res'"
    unfolding label_loop_Cons_Inr by blast
  show ?case
  proof (cases "label = x")
    case True
    with step(1,2) name_loop_complete [OF step(3)] show ?thesis by blast
  next
    case False
    with Cons.prems(2) have "label \<in> set ls" by simp
    from Cons.IH [OF step(4) this] show ?thesis .
  qed
qed

subsection \<open>Selections, unique values and keys\<close>

lemma selected_rows:
  "list_all2 (\<lambda>r v. f r = Inr v) rs vs \<Longrightarrow>
     map fst (filter (\<lambda>(r, v). P v) (zip rs vs)) = filter (\<lambda>r. \<exists>v. f r = Inr v \<and> P v) rs"
  by (induction rs vs rule: list_all2_induct) auto

lemma filter_by_rows:
  assumes "filter_by df c P = Inr d"
  shows "d = df\<lparr>rows := filter (\<lambda>r. \<exists>v. row_get (columns df) r c = Inr v \<and> P v) (rows df)\<rparr>"
proof -
  from assms obtain vs where v: "column df c = Inr vs"
    and d: "d = df\<lparr>rows := map fst (filter (\<lambda>(r, v). P v) (zip (rows df) vs))\<rparr>"
    by (auto simp: filter_by_Inr)
  from v have "list_all2 (\<lambda>r v. row_get (columns df) r c = Inr v) (rows df) vs"
    by (simp add: column_Inr_iff)
  from selected_rows [OF this, of P] d show ?thesis by simp
qed

lemma column_cell_of_row:
  assumes "column df c = Inr vs" "r \<in> set (rows df)"
  shows "\<exists>v \<in> set vs. row_get (columns df) r c = Inr v"
proof -
  from assms(1) have "list_all2 (\<lambda>r v. row_get (columns df) r c = Inr v) (rows df) vs"
    by (simp add: column_Inr_iff)
  with assms(2) show ?thesis
    by (auto simp: list_all2_conv_all_nth in_set_conv_nth)
qed

lemma column_row_of_cell:
  assumes "column df c = Inr vs" "v \<in> set vs"
  shows "\<exists>r \<in> set (rows df). row_get (columns df) r c = Inr v"
proof -
  have "list_all2 P rs vs \<Longrightarrow> v \<in> set vs \<Longrightarrow> \<exists>r \<in> set rs. P r v" for P rs
    by (induction rs vs rule: list_all2_induct) auto
  moreover from assms(1)
  have "list_all2 (\<lambda>r v. row_get (columns df) r c = Inr v) (rows df) vs"
    by (simp add: column_Inr_iff)
  ultimately show ?thesis using assms(2) by blast
qed

lemma py_eq_S [simp]: "py_eq v (S s) \<longleftrightarrow> v = S s"
  by (cases v) auto

lemma py_eq_S_left [simp]: "py_eq (S s) v \<longleftrightarrow> v = S s"
  by (cases v) auto

lemma same_value_refl: "same_value v v"
  by (cases v) (auto simp: same_value_def)

lemma same_value_S [simp]: "same_value (S s) v \<longleftrightarrow> v = S s"
  by (auto simp: same_value_def)

lemma set_unique_acc: "set (unique_acc seen vs) \<subseteq> set seen \<union> set vs"
  by (induction seen vs rule: unique_acc.induct) auto

lemma unique_acc_seen: "set seen \<subseteq> set (unique_acc seen vs)"
  by (induction seen vs rule: unique_acc.induct) auto

lemma unique_acc_covers:
  "v \<in> set vs \<Longrightarrow> \<exists>u \<in> set (unique_acc seen vs). same_value v u"
proof (induction seen vs rule: unique_acc.induct)
  case (1 seen)
  then show ?case by simp
next
  case (2 seen x vs)
  show ?case
  proof (cases "v = x")
    case True
    show ?thesis
    proof (cases "list_ex (same_value x) seen")
      case True
      then obtain u where "u \<in> set seen" "same_value x u" by (auto simp: list_ex_iff)
      with unique_acc_seen [of seen "x # vs"] \<open>v = x\<close> show ?thesis by blast
    next
      case False
      have "x \<in> set (unique_acc (seen @ [x]) vs)"
        using unique_acc_seen [of "seen @ [x]" vs] by auto
      with False \<open>v = x\<close> show ?thesis by (auto intro: same_value_refl)
    qed
  next
    case False
    with "2.prems" have "v \<in> set vs" by simp
    with "2.IH" show ?thesis by (cases "list_ex (same_value x) seen") auto
  qed
qed

lemma set_unique: "set (unique vs) \<subseteq> set vs"
  using set_unique_acc [of "[]" vs] by (simp add: unique_def)

lemma unique_S: "S s \<in> set vs \<Longrightarrow> S s \<in> set (unique vs)"
  using unique_acc_covers [of "S s" vs "[]"] by (auto simp: unique_def)

lemma str_add_Inr: "str_add p v = Inr k \<longleftrightarrow> (\<exists>s. v = S s \<and> k = p @ s)"
  by (cases v) auto

lemma key_of_Inr:
  "key_of label name = Inr k \<longleftrightarrow>
     (\<exists>l n. label = S l \<and> name = S n \<and>
        k = (if n = l then ''auc_'' @ l else ''auc_'' @ l @ ''_'' @ n))"
  by (cases label; cases name) (auto simp: key_of_def)

lemma label_rows:
  assumes "filter_by df ''label'' (\<lambda>v. py_eq v (S l)) = Inr dfl"
  shows "dfl = df\<lparr>rows := filter (labelled df l) (rows df)\<rparr>"
  using filter_by_rows [OF assms] by (simp add: labelled_def [abs_def])

lemma group_rows:
  assumes "group_of (df\<lparr>rows := filter (labelled df l) (rows df)\<rparr>) (S l) (S n) = Inr g"
  shows "g = df\<lparr>rows := filter (\<lambda>r. labelled df l r \<and> (n = l \<or> named df n r)) (rows df)\<rparr>"
proof (cases "n = l")
  case True
  with assms show ?thesis by (simp add: group_of_def)
next
  case False
  with assms have "filter_by (df\<lparr>rows := filter (labelled df l) (rows df)\<rparr>) ''name''
      (\<lambda>v. py_eq v (S n)) = Inr g"
    by (simp add: group_of_def)
  from filter_by_rows [OF this] False show ?thesis
    by (simp add: named_def conj_commute)
qed

subsection \<open>The entries of the dict that eval_gold returns\<close>

lemma map_of_fst_image: "k \<in> fst ` set al \<Longrightarrow> \<exists>v. map_of al k = Some v"
  by (cases "map_of al k") (auto simp: map_of_eq_None_iff)

lemma loop_keys_rows:
  assumes ls: "column df' ''label'' = Inr ls"
    and loop: "label_loop roc df' (unique ls) res0 = Inr res"
  shows "{k. \<exists>label \<in> set (unique ls). \<exists>dfl ns.
            filter_by df' ''label'' (\<lambda>v. py_eq v label) = Inr dfl \<and>
            column dfl ''name'' = Inr ns \<and>
            (\<exists>name \<in> set (unique ns). key_of label name = Inr k)}
       = {k. \<exists>r \<in> set (rows df'). \<exists>l n. labelled df' l r \<and> named df' n r \<and>
           k = (if n = l then ''auc_'' @ l else ''auc_'' @ l @ ''_'' @ n)}"
    (is "?L = ?K")
proof (intro set_eqI iffI)
  fix k assume "k \<in> ?L"
  then obtain label dfl ns name where
    f: "filter_by df' ''label'' (\<lambda>v. py_eq v label) = Inr dfl" and
    n: "column dfl ''name'' = Inr ns" "name \<in> set (unique ns)" and
    k: "key_of label name = Inr k"
    by blast
  from k obtain l n where ln: "label = S l" "name = S n"
    "k = (if n = l then ''auc_'' @ l else ''auc_'' @ l @ ''_'' @ n)"
    by (auto simp: key_of_Inr)
  from f ln have dfl: "dfl = df'\<lparr>rows := filter (labelled df' l) (rows df')\<rparr>"
    by (simp add: label_rows)
  from n set_unique [of ns] have "name \<in> set ns" by auto
  from column_row_of_cell [OF n(1) this] obtain r
    where "r \<in> set (rows dfl)" "row_get (columns dfl) r ''name'' = Inr name" by blast
  with dfl ln have "r \<in> set (rows df')" "labelled df' l r" "named df' n r"
    by (auto simp: named_def)
  with ln(3) show "k \<in> ?K" by blast
next
  fix k assume "k \<in> ?K"
  then obtain r l n where r: "r \<in> set (rows df')" "labelled df' l r" "named df' n r"
    and k: "k = (if n = l then ''auc_'' @ l else ''auc_'' @ l @ ''_'' @ n)"
    by blast
  from column_cell_of_row [OF ls r(1)] r(2) have "S l \<in> set ls"
    by (auto simp: labelled_def)
  then have l: "S l \<in> set (unique ls)" by (rule unique_S)
  from label_loop_complete [OF loop l] obtain dfl ns where
    f: "filter_by df' ''label'' (\<lambda>v. py_eq v (S l)) = Inr dfl" and
    n: "column dfl ''name'' = Inr ns"
    by blast
  from f have dfl: "dfl = df'\<lparr>rows := filter (labelled df' l) (rows df')\<rparr>"
    by (simp add: label_rows)
  with r have "r \<in> set (rows dfl)" by simp
  from column_cell_of_row [OF n this] r(3) dfl have "S n \<in> set ns"
    by (auto simp: named_def)
  then have "S n \<in> set (unique ns)" by (rule unique_S)
  moreover have "key_of (S l) (S n) = Inr k"
    using k by (simp add: key_of_Inr)
  ultimately show "k \<in> ?L" using l f n by blast
qed

lemma eval_gold_keys:
  assumes "eval_gold roc pf df = Inr (df', res)"
  shows "fst ` set res = {''avg_diff'', ''auc_all''} \<union>
     {k. \<exists>r \<in> set (rows df'). \<exists>l n. labelled df' l r \<and> named df' n r \<and>
           k = (if n = l then ''auc_'' @ l else ''auc_'' @ l @ ''_'' @ n)}"
proof -
  from assms obtain avg auc ls where
    ls: "column df' ''label'' = Inr ls" and
    loop: "label_loop roc df' (unique ls)
          (AList.update ''auc_all'' (F auc) (AList.update ''avg_diff'' avg [])) = Inr res"
    by (auto simp: eval_gold_Inr_iff)
  from label_loop_keys [OF loop] loop_keys_rows [OF ls loop] show ?thesis
    by (simp add: dom_update insert_commute)
qed

lemma eval_gold_sound:
  assumes "eval_gold roc pf df = Inr (df', res)" "map_of res k = Some v"
  shows "(k = ''avg_diff'' \<and> (\<exists>ds. column df' ''abs_gold_diff'' = Inr ds \<and> mean ds = Inr v))
     \<or> (k = ''auc_all'' \<and> (\<exists>a. calculate_auc roc df' = Inr a \<and> v = F a) \<and>
         \<not> (\<exists>r \<in> set (rows df'). labelled df' ''all'' r \<and> named df' ''all'' r))
     \<or> (\<exists>r \<in> set (rows df'). \<exists>l n a. labelled df' l r \<and> named df' n r \<and>
           k = (if n = l then ''auc_'' @ l else ''auc_'' @ l @ ''_'' @ n) \<and>
           calculate_auc roc
             (df'\<lparr>rows := filter (\<lambda>r. labelled df' l r \<and> (n = l \<or> named df' n r)) (rows df')\<rparr>)
             = Inr a \<and> v = F a)"
proof -
  from assms obtain ds avg auc ls where
    ds: "column df' ''abs_gold_diff'' = Inr ds" "mean ds = Inr avg" and
    auc: "calculate_auc roc df' = Inr auc" and
    ls: "column df' ''label'' = Inr ls" and
    loop: "label_loop roc df' (unique ls)
          (AList.update ''auc_all'' (F auc) (AList.update ''avg_diff'' avg [])) = Inr res"
    by (auto simp: eval_gold_Inr_iff)
  let ?K = "{k. \<exists>r \<in> set (rows df'). \<exists>l n. labelled df' l r \<and> named df' n r \<and>
           k = (if n = l then ''auc_'' @ l else ''auc_'' @ l @ ''_'' @ n)}"
  from label_loop_sound [OF loop assms(2)]
  consider (init) "map_of (AList.update ''auc_all'' (F auc) (AList.update ''avg_diff'' avg [])) k
        = Some v"
        "\<forall>label \<in> set (unique ls). \<forall>dfl ns.
            filter_by df' ''label'' (\<lambda>v. py_eq v label) = Inr dfl \<longrightarrow>
            column dfl ''name'' = Inr ns \<longrightarrow>
            (\<forall>name \<in> set (unique ns). key_of label name \<noteq> Inr k)"
    | (entry) label dfl ns name g a where "label \<in> set (unique ls)"
        "filter_by df' ''label'' (\<lambda>v. py_eq v label) = Inr dfl"
        "column dfl ''name'' = Inr ns" "name \<in> set (unique ns)"
        "group_of dfl label name = Inr g" "calculate_auc roc g = Inr a"
        "key_of label name = Inr k" "v = F a"
    by blast
  then show ?thesis
  proof cases
    case init
    from init(2) have "k \<notin> ?K"
      unfolding loop_keys_rows [OF ls loop, symmetric] by blast
    then have "k = ''auc_all'' \<Longrightarrow>
        \<not> (\<exists>r \<in> set (rows df'). labelled df' ''all'' r \<and> named df' ''all'' r)"
    proof (intro notI, elim bexE conjE)
      fix r assume "k = ''auc_all''" "r \<in> set (rows df')"
        "labelled df' ''all'' r" "named df' ''all'' r"
      then have "k \<in> ?K" by (intro CollectI bexI [of _ r] exI [of _ "''all''"]) auto
      with \<open>k \<notin> ?K\<close> show False by contradiction
    qed
    with init(1) ds auc show ?thesis
      by (auto simp: update_conv' split: if_splits)
  next
    case entry
    from entry(7) obtain l n where ln: "label = S l" "name = S n"
      "k = (if n = l then ''auc_'' @ l else ''auc_'' @ l @ ''_'' @ n)"
      by (auto simp: key_of_Inr)
    from entry(2) ln have dfl: "dfl = df'\<lparr>rows := filter (labelled df' l) (rows df')\<rparr>"
      by (simp add: label_rows)
    from entry(4) set_unique [of ns] have "name \<in> set ns" by auto
    from column_row_of_cell [OF entry(3) this] obtain r
      where "r \<in> set (rows dfl)" "row_get (columns dfl) r ''name'' = Inr name" by blast
    with dfl ln have r: "r \<in> set (rows df')" "labelled df' l r" "named df' n r"
      by (auto simp: named_def)
    from entry(5) dfl ln have
      "g = df'\<lparr>rows := filter (\<lambda>r. labelled df' l r \<and> (n = l \<or> named df' n r)) (rows df')\<rparr>"
      by (simp add: group_rows)
    with entry(6,8) r ln(3) show ?thesis by blast
  qed
qed

lemma eval_gold_complete:
  assumes "eval_gold roc pf df = Inr (df', res)"
    and r: "r \<in> set (rows df')" "labelled df' l r" "named df' n r"
  shows "\<exists>a. calculate_auc roc
             (df'\<lparr>rows := filter (\<lambda>r. labelled df' l r \<and> (n = l \<or> named df' n r)) (rows df')\<rparr>)
             = Inr a"
proof -
  from assms obtain avg auc ls where
    ls: "column df' ''label'' = Inr ls" and
    loop: "label_loop roc df' (unique ls)
          (AList.update ''auc_all'' (F auc) (AList.update ''avg_diff'' avg [])) = Inr res"
    by (auto simp: eval_gold_Inr_iff)
  from column_cell_of_row [OF ls r(1)] r(2) have "S l \<in> set ls"
    by (auto simp: labelled_def)
  then have l: "S l \<in> set (unique ls)" by (rule unique_S)
  from label_loop_complete [OF loop l] obtain dfl ns where
    f: "filter_by df' ''label'' (\<lambda>v. py_eq v (S l)) = Inr dfl" and
    n: "column dfl ''name'' = Inr ns" and
    all: "\<forall>name \<in> set (unique ns). \<exists>g a k. group_of dfl (S l) name = Inr g \<and>
           calculate_auc roc g = Inr a \<and> key_of (S l) name = Inr k"
    by blast
  from f have dfl: "dfl = df'\<lparr>rows := filter (labelled df' l) (rows df')\<rparr>"
    by (simp add: label_rows)
  with r have "r \<in> set (rows dfl)" by simp
  from column_cell_of_row [OF n this] r(3) dfl have "S n \<in> set ns"
    by (auto simp: named_def)
  then have "S n \<in> set (unique ns)" by (rule unique_S)
  with all obtain g a where g: "group_of dfl (S l) (S n) = Inr g" "calculate_auc roc g = Inr a"
    by blast
  from g(1) dfl have
    "g = df'\<lparr>rows := filter (\<lambda>r. labelled df' l r \<and> (n = l \<or> named df' n r)) (rows df')\<rparr>"
    by (simp add: group_rows)
  with g(2) show ?thesis by blast
qed

subsection \<open>The runs on the concrete frames\<close>

lemmas run_defs =
  eval_gold_def gold_astype_def add_abs_gold_diff_def abs_gold_diff_def score_of_def
  column_def row_get_def set_column_def mean_def calculate_auc_def filter_by_def
  roc_auc_ref_def pair_credit_def unique_def same_value_def

lemma score_gold_example: "score_gold gold_example model_example = Inr scored_example"
  by (simp add: score_gold_def gold_example_def model_example_def scored_example_def column_def
      row_get_def DataFrame_def concat_axis1_def pad_rows_def scores_example_def)

lemma eval_gold_example:
  "eval_gold roc_auc_ref parse_none scored_example = Inr (evaluated_example, results_example)"
  by (simp add: run_defs scored_example_def evaluated_example_def results_example_def)

lemma wf_scored_example: "wf_frame scored_example"
  by (simp add: wf_frame_def scored_example_def)

lemma numbers_Inr:
  "numbers ds = Inr xs \<Longrightarrow> xs = map the (filter (\<lambda>x. x \<noteq> None) (map number ds))"
  by (induction ds arbitrary: xs rule: numbers.induct) (auto split: sum.splits)

lemma eval_gold_avg_diff:
  assumes "eval_gold roc pf df = Inr (df', res)"
  shows "\<exists>ds avg. column df' ''abs_gold_diff'' = Inr ds \<and> mean ds = Inr avg \<and>
           map_of res ''avg_diff'' = Some avg"
proof -
  have "''avg_diff'' \<in> fst ` set res"
    unfolding eval_gold_keys [OF assms] by simp
  from map_of_fst_image [OF this] obtain v where v: "map_of res ''avg_diff'' = Some v"
    by blast
  from eval_gold_sound [OF assms v] show ?thesis
    using v by (auto split: if_splits)
qed

lemma main_example:
  "main roc_auc_ref parse_none runner_example write_ok flags_example fs_example
     = ([(''job/gold_eval.json'', Json (results_example @ [(''gold_path'', S ''gold.csv'')])),
         (''gold_scored.csv'', Csv evaluated_example)], Inr ())"
  by (simp add: main_def fs_example_def flags_example_def runner_example_def eval_path_def
      write_ok_def score_gold_example eval_gold_example results_example_def)

lemma try_map_list_all:
  "try_map f xs = Inr ys \<Longrightarrow> (\<And>x y. f x = Inr y \<Longrightarrow> P y) \<Longrightarrow> list_all P ys"
  by (induction xs arbitrary: ys) (auto split: sum.splits)

lemma wf_evaluated_example: "wf_frame evaluated_example"
  by (simp add: wf_frame_def evaluated_example_def)

lemma no_underscore_all: "l @ ''_'' @ n \<noteq> ''all''"
proof
  assume "l @ ''_'' @ n = ''all''"
  then have "CHR ''_'' \<in> set ''all''" by (metis in_set_conv_decomp append_Cons)
  then show False by simp
qed

lemma main_Inr_cases:
  assumes "main roc pf ModelRunner write_file FLAGS fs = (ws, Inr ())"
  obtains df_gold m dfs df res where
    "fs (gold_path FLAGS) = Some df_gold"
    "ModelRunner (job_dir FLAGS) (embeddings_path FLAGS) (labels_flag FLAGS) = Inr m"
    "score_gold df_gold m = Inr dfs" "eval_gold roc pf dfs = Inr (df, res)"
    "ws = [(eval_path FLAGS, Json (AList.update ''gold_path'' (S (gold_path FLAGS)) res)),
           (output_path FLAGS, Csv df)]"
  using assms by (auto simp: main_def split: option.splits sum.splits prod.splits)

subsection \<open>The shape of the frames\<close>

lemma length_pad_rows: "length (pad_rows n w rs) = max n (length rs)"
  by (simp add: pad_rows_def)

lemma score_gold_Inr:
  assumes "score_gold df_gold m = Inr dfs"
  obtains texts df_scores where "column df_gold ''comment_text'' = Inr texts"
    "DataFrame (predict m texts) (labels m) = Inr df_scores"
    "dfs = concat_axis1 df_scores df_gold"
    "columns df_scores = labels m" "rows df_scores = map (map F) (predict m texts)"
    "list_all (\<lambda>r. length r = length (labels m)) (predict m texts)"
  using assms
  by (auto simp: score_gold_def DataFrame_def split: sum.splits if_splits)

lemma columns_score_gold:
  "score_gold df_gold m = Inr dfs \<Longrightarrow> columns dfs = labels m @ columns df_gold"
  by (erule score_gold_Inr) (simp add: concat_axis1_def Let_def)

lemma length_rows_score_gold:
  "score_gold df_gold m = Inr dfs \<Longrightarrow> length (rows df_gold) \<le> length (rows dfs)"
  by (erule score_gold_Inr) (simp add: concat_axis1_def Let_def length_pad_rows)

lemma length_rows_set_column':
  "length vs = length (rows df) \<Longrightarrow> length (rows (set_column df c vs)) = length (rows df)"
  by (rule length_rows_set_column)

lemma eval_gold_shape:
  assumes "eval_gold roc pf df = Inr (df', res)"
  shows "length (rows df') = length (rows df)"
    and "set (columns df') \<subseteq> insert ''abs_gold_diff'' (set (columns df))"
proof -
  from assms obtain df1 where a: "gold_astype pf df = Inr df1"
    and b: "add_abs_gold_diff df1 = Inr df'"
    by (auto simp: eval_gold_Inr_iff)
  from a obtain gs gs' where g: "column df ''gold'' = Inr gs"
    "try_map (to_float64 pf) gs = Inr gs'" "df1 = set_column df ''gold'' gs'"
    by (auto simp: gold_astype_Inr_iff)
  from b obtain ds where d: "try_map (abs_gold_diff (columns df1)) (rows df1) = Inr ds"
    "df' = set_column df1 ''abs_gold_diff'' ds"
    by (auto simp: add_abs_gold_diff_Inr_iff)
  have len1: "length (rows df1) = length (rows df)"
    using g by (simp add: length_rows_set_column try_map_length column_length)
  then show "length (rows df') = length (rows df)"
    using d by (simp add: length_rows_set_column try_map_length)
  have "columns df1 = columns df"
    using g by (simp add: columns_set_column column_mem)
  then show "set (columns df') \<subseteq> insert ''abs_gold_diff'' (set (columns df))"
    using d by (auto simp: columns_set_column split: if_splits)
qed

lemma unique_nonempty: "vs \<noteq> [] \<Longrightarrow> unique vs \<noteq> []"
proof -
  assume "vs \<noteq> []"
  then obtain v where "v \<in> set vs" by (cases vs) auto
  from unique_acc_covers [OF this, of "[]"] show ?thesis
    by (auto simp: unique_def)
qed

lemma filter_by_columns: "filter_by df c P = Inr d \<Longrightarrow> columns d = columns df"
  by (auto simp: filter_by_Inr)

lemma label_loop_needs_name:
  assumes "''name'' \<notin> set (columns df)" "ls \<noteq> []"
  shows "label_loop roc df ls res \<noteq> Inr res'"
proof
  assume ok: "label_loop roc df ls res = Inr res'"
  from assms(2) obtain l ls' where "ls = l # ls'" by (cases ls) auto
  with ok have "label_loop roc df (l # ls') res = Inr res'" by simp
  then obtain dfl ns where f: "filter_by df ''label'' (\<lambda>v. py_eq v l) = Inr dfl"
    and n: "column dfl ''name'' = Inr ns"
    unfolding label_loop_Cons_Inr by blast
  from n have "''name'' \<in> set (columns dfl)" by (rule column_mem)
  with filter_by_columns [OF f] assms(1) show False by simp
qed

lemma eval_gold_needs_name:
  assumes "''name'' \<notin> set (columns df)" "rows df \<noteq> []"
  shows "\<exists>e. eval_gold roc pf df = Inl e"
proof (cases "eval_gold roc pf df")
  case (Inl e)
  then show ?thesis by blast
next
  case (Inr p)
  obtain df' res where p: "p = (df', res)" by (cases p)
  with Inr have ev: "eval_gold roc pf df = Inr (df', res)" by simp
  then obtain avg auc ls where
    ls: "column df' ''label'' = Inr ls" and
    loop: "label_loop roc df' (unique ls)
          (AList.update ''auc_all'' (F auc) (AList.update ''avg_diff'' avg [])) = Inr res"
    by (auto simp: eval_gold_Inr_iff)
  from eval_gold_shape [OF ev] assms have "''name'' \<notin> set (columns df')" "rows df' \<noteq> []"
    by auto
  with ls have "unique ls \<noteq> []"
    using column_length [OF ls] by (intro unique_nonempty) auto
  from label_loop_needs_name [OF \<open>''name'' \<notin> set (columns df')\<close> this] loop
  show ?thesis by blast
qed

subsection \<open>Where eval_gold can raise\<close>











section \<open>The claims\<close>



text \<open>
  C4 states that \<open>avg_diff\<close> is the mean over every row of the absolute difference
  between the row's score and its gold value. On \<open>missing_gold_example\<close> the third row
  has no gold value, its difference is missing, and \<open>avg_diff\<close> is 1/4, the mean over
  the two other rows, where the mean over the three rows is missing.
\<close>

theorem avg_diff_every_row_counterexample:
  "eval_gold roc_auc_ref parse_none missing_gold_example
     = Inr (missing_gold_evaluated,
            [(''avg_diff'', F (1 / 4)), (''auc_all'', F 1), (''auc_threat'', F 1)])
   \<and> column missing_gold_evaluated ''abs_gold_diff'' = Inr [F (1 / 4), F (1 / 4), NaN]
   \<and> mean_over_every_row [F (1 / 4), F (1 / 4), NaN] = NaN
   \<and> F (1 / 4) \<noteq> mean_over_every_row [F (1 / 4), F (1 / 4), NaN]"
  by (simp add: run_defs missing_gold_example_def missing_gold_evaluated_def
      mean_over_every_row_def)

text \<open>
  C4, amended. When \<open>eval_gold\<close> returns on a well-formed frame, the gold column has
  been converted, the absolute difference \<open>ds\<close> has been computed for every row of the
  frame (whatever its gold value), and \<open>avg_diff\<close> is the mean of the differences that
  are not missing: their sum over their count \<open>xs\<close>, and missing when there is none.
\<close>

theorem avg_diff_mean_of_present:
  assumes "wf_frame df" and "eval_gold roc pf df = Inr (df', res)"
  shows "\<exists>df1 ds xs.
           gold_astype pf df = Inr df1 \<and> length (rows df1) = length (rows df) \<and>
           try_map (abs_gold_diff (columns df1)) (rows df1) = Inr ds \<and>
           xs = map the (filter (\<lambda>x. x \<noteq> None) (map number ds)) \<and>
           map_of res ''avg_diff''
             = Some (if xs = [] then NaN else F (sum_list xs / of_nat (length xs)))"
proof -
  from eval_gold_frames [OF assms] obtain gs gs' ds where st:
    "column df ''gold'' = Inr gs" "try_map (to_float64 pf) gs = Inr gs'"
    "try_map (abs_gold_diff (columns df)) (rows (set_column df ''gold'' gs')) = Inr ds"
    "df' = set_column (set_column df ''gold'' gs') ''abs_gold_diff'' ds"
    "length gs' = length (rows df)" "length ds = length (rows df)"
    "wf_frame (set_column df ''gold'' gs')"
    "columns (set_column df ''gold'' gs') = columns df"
    by metis
  let ?df1 = "set_column df ''gold'' gs'"
  have df1: "gold_astype pf df = Inr ?df1"
    using st(1,2) by (simp add: gold_astype_def)
  have len1: "length (rows ?df1) = length (rows df)"
    using st(5) by (simp add: length_rows_set_column)
  have col: "column df' ''abs_gold_diff'' = Inr ds"
    using st(4,6,7) len1 by (simp add: column_set_column_same)
  from eval_gold_avg_diff [OF assms(2)] col obtain avg where
    avg: "mean ds = Inr avg" "map_of res ''avg_diff'' = Some avg"
    by auto
  from avg(1) obtain xs where xs: "numbers ds = Inr xs"
    "avg = (if xs = [] then NaN else F (sum_list xs / of_nat (length xs)))"
    by (auto simp: mean_def split: sum.splits)
  from numbers_Inr [OF xs(1)] xs(2) avg(2) df1 len1 st(3,8) show ?thesis
    by auto
qed

theorem avg_diff_mean_of_present_witness:
  "wf_frame scored_example
   \<and> eval_gold roc_auc_ref parse_none scored_example = Inr (evaluated_example, results_example)
   \<and> column evaluated_example ''gold'' = Inr [F 0, F 1, F 1, F 0, F 1, F 0, F 2]
   \<and> column evaluated_example ''abs_gold_diff''
       = Inr [F (1 / 4), F (1 / 4), F (1 / 4), F (1 / 4), F (1 / 4), F (1 / 4), F (7 / 4)]
   \<and> map_of results_example ''avg_diff''
       = Some (F ((1 / 4 + 1 / 4 + 1 / 4 + 1 / 4 + 1 / 4 + 1 / 4 + 7 / 4) / 7))"
  using avg_diff_mean_of_present [OF wf_scored_example eval_gold_example]
    wf_scored_example eval_gold_example
  by (simp add: evaluated_example_def results_example_def column_def row_get_def)

text \<open>
  C9 states that after \<open>eval_gold\<close> the frame has a new column \<open>abs_gold_diff\<close>, its
  \<open>gold\<close> column converted, and every other column unchanged. On
  \<open>has_diff_example\<close>, which has a column \<open>abs_gold_diff\<close> already, the frame has the
  same columns after the call as before, and the cells of that column are replaced.
\<close>

theorem eval_gold_new_column_counterexample:
  "wf_frame has_diff_example
   \<and> eval_gold roc_auc_ref parse_none has_diff_example
       = Inr (has_diff_evaluated,
              [(''avg_diff'', F (1 / 4)), (''auc_all'', F 1), (''auc_threat'', F 1)])
   \<and> columns has_diff_evaluated = columns has_diff_example
   \<and> column has_diff_example ''abs_gold_diff'' = Inr [I 9, I 9]
   \<and> column has_diff_evaluated ''abs_gold_diff'' = Inr [F (1 / 4), F (1 / 4)]"
  by (simp add: run_defs has_diff_example_def has_diff_evaluated_def wf_frame_def)

text \<open>
  C9, amended. \<open>eval_gold\<close> changes the frame it is given. When it returns on a
  well-formed frame, the frame has the column \<open>abs_gold_diff\<close>, holding for every row
  the absolute difference that the call computed: the column is appended at the right
  when the frame had none of that name, and replaces the cells of the column of that
  name otherwise. The cells of the \<open>gold\<close> column are the former ones converted to
  floats, and every other column is as it was. \<open>main\<close> writes the scored CSV after the
  call: a CSV that a run writes holds the changed frame, and a run that ends normally
  has written it.
\<close>

theorem eval_gold_changes_frame:
  assumes "wf_frame df" and "eval_gold roc pf df = Inr (df', res)"
  shows "columns df' = (if ''abs_gold_diff'' \<in> set (columns df) then columns df
                        else columns df @ [''abs_gold_diff''])
     \<and> (\<exists>gs gs' df1 ds. column df ''gold'' = Inr gs \<and> try_map (to_float64 pf) gs = Inr gs' \<and>
           column df' ''gold'' = Inr gs' \<and> list_all (\<lambda>g. g = NaN \<or> (\<exists>x. g = F x)) gs' \<and>
           gold_astype pf df = Inr df1 \<and>
           try_map (abs_gold_diff (columns df1)) (rows df1) = Inr ds \<and>
           column df' ''abs_gold_diff'' = Inr ds \<and> length ds = length (rows df))
     \<and> (\<forall>c. c \<noteq> ''gold'' \<and> c \<noteq> ''abs_gold_diff'' \<longrightarrow> column df' c = column df c)
     \<and> (\<forall>ModelRunner write_file FLAGS fs df_gold m.
           fs (gold_path FLAGS) = Some df_gold \<and>
           ModelRunner (job_dir FLAGS) (embeddings_path FLAGS) (labels_flag FLAGS) = Inr m \<and>
           score_gold df_gold m = Inr df \<longrightarrow>
           (\<forall>p c. (p, Csv c) \<in> set (fst (main roc pf ModelRunner write_file FLAGS fs)) \<longrightarrow>
              p = output_path FLAGS \<and> c = df') \<and>
           (snd (main roc pf ModelRunner write_file FLAGS fs) = Inr () \<longrightarrow>
              (output_path FLAGS, Csv df')
                \<in> set (fst (main roc pf ModelRunner write_file FLAGS fs))))"
proof -
  from eval_gold_frames [OF assms] obtain gs gs' ds where st:
    "column df ''gold'' = Inr gs" "try_map (to_float64 pf) gs = Inr gs'"
    "df' = set_column (set_column df ''gold'' gs') ''abs_gold_diff'' ds"
    "length gs' = length (rows df)" "length ds = length (rows df)"
    "wf_frame (set_column df ''gold'' gs')"
    "columns (set_column df ''gold'' gs') = columns df"
    "try_map (abs_gold_diff (columns df)) (rows (set_column df ''gold'' gs')) = Inr ds"
    by metis
  let ?df1 = "set_column df ''gold'' gs'"
  have df1: "gold_astype pf df = Inr ?df1"
    using st(1,2) by (simp add: gold_astype_def)
  have len1: "length (rows ?df1) = length (rows df)"
    using st(4) by (simp add: length_rows_set_column)
  have cols: "columns df' = (if ''abs_gold_diff'' \<in> set (columns df) then columns df
                        else columns df @ [''abs_gold_diff''])"
    using st(3,7) by (simp add: columns_set_column)
  have gold: "column df' ''gold'' = Inr gs'"
    using st(3,4,5,6) len1 assms(1)
    by (simp add: column_set_column_other column_set_column_same)
  have floats: "list_all (\<lambda>g. g = NaN \<or> (\<exists>x. g = F x)) gs'"
    using st(2) by (rule try_map_list_all) (rule to_float64_is_float)
  have diff: "column df' ''abs_gold_diff'' = Inr ds"
    using st(3,5,6) len1 by (simp add: column_set_column_same)
  have other: "column df' c = column df c" if "c \<noteq> ''gold''" "c \<noteq> ''abs_gold_diff''" for c
    using that st(3,4,5,6) len1 assms(1) by (simp add: column_set_column_other)
  have written:
    "(\<forall>p c. (p, Csv c) \<in> set (fst (main roc pf ModelRunner write_file FLAGS fs)) \<longrightarrow>
        p = output_path FLAGS \<and> c = df') \<and>
     (snd (main roc pf ModelRunner write_file FLAGS fs) = Inr () \<longrightarrow>
        (output_path FLAGS, Csv df') \<in> set (fst (main roc pf ModelRunner write_file FLAGS fs)))"
    if "fs (gold_path FLAGS) = Some df_gold"
      "ModelRunner (job_dir FLAGS) (embeddings_path FLAGS) (labels_flag FLAGS) = Inr m"
      "score_gold df_gold m = Inr df"
    for ModelRunner write_file FLAGS fs df_gold m
    using that assms(2) by (simp add: main_def split: option.splits)
  have changed: "\<exists>gs gs' df1 ds. column df ''gold'' = Inr gs \<and>
           try_map (to_float64 pf) gs = Inr gs' \<and>
           column df' ''gold'' = Inr gs' \<and> list_all (\<lambda>g. g = NaN \<or> (\<exists>x. g = F x)) gs' \<and>
           gold_astype pf df = Inr df1 \<and>
           try_map (abs_gold_diff (columns df1)) (rows df1) = Inr ds \<and>
           column df' ''abs_gold_diff'' = Inr ds \<and> length ds = length (rows df)"
    using st(1,2,5,7,8) gold floats diff df1
    by (intro exI [of _ gs] exI [of _ gs'] exI [of _ ?df1] exI [of _ ds]) simp
  have others: "\<forall>c. c \<noteq> ''gold'' \<and> c \<noteq> ''abs_gold_diff'' \<longrightarrow> column df' c = column df c"
    using other by simp
  have csv: "\<forall>ModelRunner write_file FLAGS fs df_gold m.
           fs (gold_path FLAGS) = Some df_gold \<and>
           ModelRunner (job_dir FLAGS) (embeddings_path FLAGS) (labels_flag FLAGS) = Inr m \<and>
           score_gold df_gold m = Inr df \<longrightarrow>
           (\<forall>p c. (p, Csv c) \<in> set (fst (main roc pf ModelRunner write_file FLAGS fs)) \<longrightarrow>
              p = output_path FLAGS \<and> c = df') \<and>
           (snd (main roc pf ModelRunner write_file FLAGS fs) = Inr () \<longrightarrow>
              (output_path FLAGS, Csv df')
                \<in> set (fst (main roc pf ModelRunner write_file FLAGS fs)))"
  proof ((rule allI)+, rule impI)
    fix ModelRunner :: model_runner and write_file :: writer and FLAGS :: flags
      and fs :: "string \<Rightarrow> frame option" and df_gold m
    assume h: "fs (gold_path FLAGS) = Some df_gold \<and>
           ModelRunner (job_dir FLAGS) (embeddings_path FLAGS) (labels_flag FLAGS) = Inr m \<and>
           score_gold df_gold m = Inr df"
    show "(\<forall>p c. (p, Csv c) \<in> set (fst (main roc pf ModelRunner write_file FLAGS fs)) \<longrightarrow>
              p = output_path FLAGS \<and> c = df') \<and>
           (snd (main roc pf ModelRunner write_file FLAGS fs) = Inr () \<longrightarrow>
              (output_path FLAGS, Csv df')
                \<in> set (fst (main roc pf ModelRunner write_file FLAGS fs)))"
      by (rule written [where fs = fs and FLAGS = FLAGS and ModelRunner = ModelRunner
              and df_gold = df_gold and m = m and write_file = write_file,
            OF h [THEN conjunct1] h [THEN conjunct2, THEN conjunct1]
              h [THEN conjunct2, THEN conjunct2]])
  qed
  from cols changed others csv show ?thesis
    by (intro conjI)
qed

text \<open>On \<open>scored_example\<close>, which has no column \<open>abs_gold_diff\<close>, the column is new,
  the integers of the gold column have become floats, and the run of \<open>main\<close> on
  \<open>gold_example\<close> writes the changed frame.\<close>

theorem eval_gold_changes_frame_witness:
  "wf_frame scored_example
   \<and> eval_gold roc_auc_ref parse_none scored_example = Inr (evaluated_example, results_example)
   \<and> columns evaluated_example = columns scored_example @ [''abs_gold_diff'']
   \<and> column scored_example ''gold'' = Inr [I 0, I 1, I 1, I 0, I 1, I 0, I 2]
   \<and> column evaluated_example ''gold'' = Inr [F 0, F 1, F 1, F 0, F 1, F 0, F 2]
   \<and> column evaluated_example ''abs_gold_diff''
       = Inr [F (1 / 4), F (1 / 4), F (1 / 4), F (1 / 4), F (1 / 4), F (1 / 4), F (7 / 4)]
   \<and> column evaluated_example ''name'' = column scored_example ''name''
   \<and> column evaluated_example ''threat'' = column scored_example ''threat''
   \<and> (''gold_scored.csv'', Csv evaluated_example)
       \<in> set (fst (main roc_auc_ref parse_none runner_example write_ok flags_example
                      fs_example))"
proof -
  note th = eval_gold_changes_frame [OF wf_scored_example eval_gold_example]
  have c: "columns evaluated_example = columns scored_example @ [''abs_gold_diff'']"
    using th [THEN conjunct1] by (simp add: scored_example_def)
  have n: "column evaluated_example ''name'' = column scored_example ''name''"
    "column evaluated_example ''threat'' = column scored_example ''threat''"
    using th [THEN conjunct2, THEN conjunct2, THEN conjunct1] by simp_all
  have "snd (main roc_auc_ref parse_none runner_example write_ok flags_example fs_example)
      = Inr ()"
    by (simp add: main_example)
  with th [THEN conjunct2, THEN conjunct2, THEN conjunct2, rule_format,
      of fs_example flags_example gold_example runner_example model_example write_ok]
    score_gold_example
  have w: "(output_path flags_example, Csv evaluated_example)
       \<in> set (fst (main roc_auc_ref parse_none runner_example write_ok flags_example
                      fs_example))"
    by (simp add: fs_example_def flags_example_def runner_example_def)
  have g: "column scored_example ''gold'' = Inr [I 0, I 1, I 1, I 0, I 1, I 0, I 2]"
    "column evaluated_example ''gold'' = Inr [F 0, F 1, F 1, F 0, F 1, F 0, F 2]"
    "column evaluated_example ''abs_gold_diff''
       = Inr [F (1 / 4), F (1 / 4), F (1 / 4), F (1 / 4), F (1 / 4), F (1 / 4), F (7 / 4)]"
    by (simp_all add: evaluated_example_def scored_example_def column_def row_get_def)
  from c n w g wf_scored_example eval_gold_example show ?thesis
    by (simp add: flags_example_def)
qed

text \<open>
  C2 states that for every label and every name of that label's rows other than the
  label, the dict holds under \<open>auc_<label>_<name>\<close> the AUC over the rows with that label
  and that name. On \<open>clash_example\<close> the rows with label \<open>insult\<close> and name
  \<open>personal\<close> have the AUC 1, and the dict holds 0 under \<open>auc_insult_personal\<close>: the
  AUC of the label \<open>insult_personal\<close>, written later under the same key.
\<close>

theorem auc_label_name_counterexample:
  "eval_gold roc_auc_ref parse_none clash_example
     = Inr (clash_evaluated,
            [(''avg_diff'', F (1 / 2)), (''auc_all'', F (1 / 2)),
             (''auc_insult_personal'', F 0)])
   \<and> calculate_auc roc_auc_ref
        (clash_evaluated\<lparr>rows := filter (\<lambda>r. labelled clash_evaluated ''insult'' r \<and>
                                      named clash_evaluated ''personal'' r)
                                   (rows clash_evaluated)\<rparr>) = Inr 1"
  by (simp add: run_defs clash_example_def clash_evaluated_def labelled_def named_def)

text \<open>
  C2, amended. When \<open>eval_gold\<close> returns, for every row with label \<open>l\<close> and a name
  \<open>n\<close> other than \<open>l\<close>:
  \<^item> the AUC over the rows with that label and that name was computed;
  \<^item> the dict holds the key \<open>auc_l_n\<close>, and its value is the AUC over the rows of a
    label/name combination of the frame that gives this key;
  \<^item> so the value is the AUC over the rows with label \<open>l\<close> and name \<open>n\<close> whenever no
    other label/name combination of the frame gives the same key.
\<close>

theorem auc_label_name_entry:
  assumes "eval_gold roc pf df = Inr (df', res)"
    and "r \<in> set (rows df')" "labelled df' l r" "named df' n r" "n \<noteq> l"
  shows "(\<exists>a. calculate_auc roc
             (df'\<lparr>rows := filter (\<lambda>r. labelled df' l r \<and> named df' n r) (rows df')\<rparr>) = Inr a)
     \<and> (\<exists>r' \<in> set (rows df'). \<exists>l' n' a. labelled df' l' r' \<and> named df' n' r' \<and>
           (if n' = l' then ''auc_'' @ l' else ''auc_'' @ l' @ ''_'' @ n')
             = ''auc_'' @ l @ ''_'' @ n \<and>
           calculate_auc roc
             (df'\<lparr>rows := filter (\<lambda>r. labelled df' l' r \<and> (n' = l' \<or> named df' n' r))
                              (rows df')\<rparr>) = Inr a \<and>
           map_of res (''auc_'' @ l @ ''_'' @ n) = Some (F a))
     \<and> ((\<forall>r' \<in> set (rows df'). \<forall>l' n'. labelled df' l' r' \<and> named df' n' r' \<and>
           (if n' = l' then ''auc_'' @ l' else ''auc_'' @ l' @ ''_'' @ n')
             = ''auc_'' @ l @ ''_'' @ n \<longrightarrow> l' = l \<and> n' = n) \<longrightarrow>
         (\<exists>a. map_of res (''auc_'' @ l @ ''_'' @ n) = Some (F a) \<and>
            calculate_auc roc
              (df'\<lparr>rows := filter (\<lambda>r. labelled df' l r \<and> named df' n r) (rows df')\<rparr>)
              = Inr a))"
proof -
  let ?k = "''auc_'' @ l @ ''_'' @ n"
  from eval_gold_complete [OF assms(1-4)] assms(5)
  have computed: "\<exists>a. calculate_auc roc
             (df'\<lparr>rows := filter (\<lambda>r. labelled df' l r \<and> named df' n r) (rows df')\<rparr>) = Inr a"
    by simp
  have "?k \<in> {k. \<exists>r \<in> set (rows df'). \<exists>l n. labelled df' l r \<and> named df' n r \<and>
           k = (if n = l then ''auc_'' @ l else ''auc_'' @ l @ ''_'' @ n)}"
    using assms(2-5) by (intro CollectI bexI [of _ r] exI [of _ l] exI [of _ n]) simp_all
  then have "?k \<in> fst ` set res"
    unfolding eval_gold_keys [OF assms(1)] by (rule UnI2)
  from map_of_fst_image [OF this] obtain v where v: "map_of res ?k = Some v" by blast
  from eval_gold_sound [OF assms(1) v]
  consider (avg) "?k = ''avg_diff''" | (all) "?k = ''auc_all''"
    | (entry) r' l' n' a where "r' \<in> set (rows df')" "labelled df' l' r'" "named df' n' r'"
        "?k = (if n' = l' then ''auc_'' @ l' else ''auc_'' @ l' @ ''_'' @ n')"
        "calculate_auc roc
           (df'\<lparr>rows := filter (\<lambda>r. labelled df' l' r \<and> (n' = l' \<or> named df' n' r)) (rows df')\<rparr>)
           = Inr a" "v = F a"
    by blast
  then have held: "\<exists>r' \<in> set (rows df'). \<exists>l' n' a. labelled df' l' r' \<and> named df' n' r' \<and>
           (if n' = l' then ''auc_'' @ l' else ''auc_'' @ l' @ ''_'' @ n') = ?k \<and>
           calculate_auc roc
             (df'\<lparr>rows := filter (\<lambda>r. labelled df' l' r \<and> (n' = l' \<or> named df' n' r))
                              (rows df')\<rparr>) = Inr a \<and>
           map_of res ?k = Some (F a)"
  proof cases
    case avg
    then show ?thesis by simp
  next
    case all
    then show ?thesis using no_underscore_all [of l n] by simp
  next
    case entry
    from entry(2-6) v show ?thesis
      by (intro bexI [of _ r'] exI [of _ l'] exI [of _ n'] exI [of _ a] conjI)
        (simp_all add: entry(1))
  qed
  then obtain r' l' n' a where e: "r' \<in> set (rows df')" "labelled df' l' r'" "named df' n' r'"
        "(if n' = l' then ''auc_'' @ l' else ''auc_'' @ l' @ ''_'' @ n') = ?k"
        "calculate_auc roc
           (df'\<lparr>rows := filter (\<lambda>r. labelled df' l' r \<and> (n' = l' \<or> named df' n' r)) (rows df')\<rparr>)
           = Inr a" "map_of res ?k = Some (F a)"
    by (elim bexE exE conjE)
  have own: "\<exists>a. map_of res ?k = Some (F a) \<and>
            calculate_auc roc
              (df'\<lparr>rows := filter (\<lambda>r. labelled df' l r \<and> named df' n r) (rows df')\<rparr>) = Inr a"
    if u: "\<forall>r' \<in> set (rows df'). \<forall>l' n'. labelled df' l' r' \<and> named df' n' r' \<and>
           (if n' = l' then ''auc_'' @ l' else ''auc_'' @ l' @ ''_'' @ n') = ?k
             \<longrightarrow> l' = l \<and> n' = n"
  proof -
    from u [rule_format, of r' l' n'] e(1-4) have "l' = l \<and> n' = n" by simp
    with e(5,6) assms(5) show ?thesis by simp
  qed
  from computed held own show ?thesis
    by (intro conjI impI)
qed

text \<open>
  On \<open>subcategory_example\<close> the label \<open>insult\<close> has the names \<open>personal\<close> and
  \<open>general\<close>. The key \<open>auc_insult_personal\<close> holds 1, the AUC over the two rows named
  \<open>personal\<close>, where the AUC over all the rows with the label is 1/2.
\<close>

theorem auc_label_name_entry_witness:
  "eval_gold roc_auc_ref parse_none subcategory_example
     = Inr (subcategory_evaluated, subcategory_results)
   \<and> map_of subcategory_results ''auc_insult_personal'' = Some (F 1)
   \<and> calculate_auc roc_auc_ref
        (subcategory_evaluated\<lparr>rows :=
           filter (\<lambda>r. labelled subcategory_evaluated ''insult'' r \<and>
                        named subcategory_evaluated ''personal'' r)
                  (rows subcategory_evaluated)\<rparr>) = Inr 1
   \<and> calculate_auc roc_auc_ref
        (subcategory_evaluated\<lparr>rows :=
           filter (labelled subcategory_evaluated ''insult'') (rows subcategory_evaluated)\<rparr>)
       = Inr (1 / 2)"
proof -
  let ?r = "[F (3 / 4), S ''insult'', F 1, S ''personal'', F (1 / 4)]"
  have ev: "eval_gold roc_auc_ref parse_none subcategory_example
     = Inr (subcategory_evaluated, subcategory_results)"
    by (simp add: run_defs subcategory_example_def subcategory_evaluated_def
        subcategory_results_def)
  have r: "?r \<in> set (rows subcategory_evaluated)" "labelled subcategory_evaluated ''insult'' ?r"
    "named subcategory_evaluated ''personal'' ?r" "''personal'' \<noteq> ''insult''"
    by (simp_all add: subcategory_evaluated_def labelled_def named_def row_get_def)
  have u: "\<forall>r' \<in> set (rows subcategory_evaluated). \<forall>l' n'.
      labelled subcategory_evaluated l' r' \<and> named subcategory_evaluated n' r' \<and>
      (if n' = l' then ''auc_'' @ l' else ''auc_'' @ l' @ ''_'' @ n')
        = ''auc_'' @ ''insult'' @ ''_'' @ ''personal'' \<longrightarrow> l' = ''insult'' \<and> n' = ''personal''"
    by (simp add: subcategory_evaluated_def labelled_def named_def row_get_def)
  have v: "map_of subcategory_results ''auc_insult_personal'' = Some (F 1)"
    by (simp add: subcategory_results_def)
  from auc_label_name_entry [OF ev r, THEN conjunct2, THEN conjunct2, THEN mp, OF u]
  obtain a where
    a: "map_of subcategory_results (''auc_'' @ ''insult'' @ ''_'' @ ''personal'') = Some (F a)"
      "calculate_auc roc_auc_ref
        (subcategory_evaluated\<lparr>rows :=
           filter (\<lambda>r. labelled subcategory_evaluated ''insult'' r \<and>
                        named subcategory_evaluated ''personal'' r)
                  (rows subcategory_evaluated)\<rparr>) = Inr a"
    by (elim exE conjE)
  from a(1) v have "a = 1" by simp
  moreover have "calculate_auc roc_auc_ref
        (subcategory_evaluated\<lparr>rows :=
           filter (labelled subcategory_evaluated ''insult'') (rows subcategory_evaluated)\<rparr>)
       = Inr (1 / 2)"
    by (simp add: run_defs subcategory_evaluated_def labelled_def [abs_def])
  ultimately show ?thesis using a(2) v ev by simp
qed

text \<open>
  C3 states that the JSON holds \<open>auc_<label>\<close> for every label of the gold data. In
  \<open>gold_example\<close> the label \<open>insult\<close> appears, with the name \<open>personal\<close> only, and the
  JSON that \<open>main\<close> writes has no key \<open>auc_insult\<close>.
\<close>

theorem json_auc_label_counterexample:
  "column gold_example ''label''
     = Inr [S ''threat'', S ''threat'', S ''obscene'', S ''obscene'', S ''insult'', S ''insult'',
            S ''threat'']
   \<and> main roc_auc_ref parse_none runner_example write_ok flags_example fs_example
     = ([(''job/gold_eval.json'',
          Json [(''avg_diff'', F (13 / 28)), (''auc_all'', F 1), (''auc_threat'', F 1),
                (''auc_obscene'', F 1), (''auc_insult_personal'', F 1),
                (''gold_path'', S ''gold.csv'')]),
         (''gold_scored.csv'', Csv evaluated_example)], Inr ())
   \<and> map_of [(''avg_diff'', F (13 / 28)), (''auc_all'', F 1), (''auc_threat'', F 1),
             (''auc_obscene'', F 1), (''auc_insult_personal'', F 1),
             (''gold_path'', S ''gold.csv'')] ''auc_insult'' = None"
proof -
  have "column gold_example ''label''
     = Inr [S ''threat'', S ''threat'', S ''obscene'', S ''obscene'', S ''insult'', S ''insult'',
            S ''threat'']"
    by (simp add: gold_example_def column_def row_get_def)
  then show ?thesis
    by (simp add: main_example results_example_def)
qed


text \<open>
  C3, amended. When \<open>main\<close> succeeds it writes the JSON of a dict \<open>J\<close> and the CSV of
  the evaluated frame \<open>df\<close>. The keys of \<open>J\<close> are \<open>avg_diff\<close>, \<open>auc_all\<close>,
  \<open>gold_path\<close>, the key \<open>auc_l\<close> for every label \<open>l\<close> that some row carries as its
  name too, and the key \<open>auc_l_n\<close> for every label \<open>l\<close> and every other name \<open>n\<close> of
  a row with that label. The value under \<open>auc_l\<close> is the AUC over the rows with label
  \<open>l\<close>, provided no label/name combination gives the same key.
\<close>

theorem json_keys:
  assumes "main roc pf ModelRunner write_file FLAGS fs = (ws, Inr ())"
  shows "\<exists>J df. ws = [(eval_path FLAGS, Json J), (output_path FLAGS, Csv df)] \<and>
     fst ` set J = {''avg_diff'', ''auc_all'', ''gold_path''}
       \<union> {k. \<exists>r \<in> set (rows df). \<exists>l. labelled df l r \<and> named df l r \<and> k = ''auc_'' @ l}
       \<union> {k. \<exists>r \<in> set (rows df). \<exists>l n. labelled df l r \<and> named df n r \<and> n \<noteq> l \<and>
               k = ''auc_'' @ l @ ''_'' @ n} \<and>
     (\<forall>l. (\<exists>r \<in> set (rows df). labelled df l r \<and> named df l r) \<and>
          (\<forall>r \<in> set (rows df). \<forall>l' n'. labelled df l' r \<and> named df n' r \<and> n' \<noteq> l' \<longrightarrow>
             l' @ ''_'' @ n' \<noteq> l) \<longrightarrow>
          (\<exists>a. map_of J (''auc_'' @ l) = Some (F a) \<and>
             calculate_auc roc (df\<lparr>rows := filter (labelled df l) (rows df)\<rparr>) = Inr a))"
proof -
  from main_Inr_cases [OF assms] obtain dfs df res where
    ev: "eval_gold roc pf dfs = Inr (df, res)" and
    ws: "ws = [(eval_path FLAGS, Json (AList.update ''gold_path'' (S (gold_path FLAGS)) res)),
           (output_path FLAGS, Csv df)]"
    by metis
  let ?J = "AList.update ''gold_path'' (S (gold_path FLAGS)) res"
  have keys: "fst ` set ?J = {''avg_diff'', ''auc_all'', ''gold_path''}
       \<union> {k. \<exists>r \<in> set (rows df). \<exists>l. labelled df l r \<and> named df l r \<and> k = ''auc_'' @ l}
       \<union> {k. \<exists>r \<in> set (rows df). \<exists>l n. labelled df l r \<and> named df n r \<and> n \<noteq> l \<and>
               k = ''auc_'' @ l @ ''_'' @ n}"
    unfolding dom_update eval_gold_keys [OF ev] by (auto split: if_splits)
  have val: "\<exists>a. map_of ?J (''auc_'' @ l) = Some (F a) \<and>
             calculate_auc roc (df\<lparr>rows := filter (labelled df l) (rows df)\<rparr>) = Inr a"
    if own: "\<exists>r \<in> set (rows df). labelled df l r \<and> named df l r"
      and u: "\<forall>r \<in> set (rows df). \<forall>l' n'. labelled df l' r \<and> named df n' r \<and> n' \<noteq> l' \<longrightarrow>
             l' @ ''_'' @ n' \<noteq> l"
    for l
  proof -
    let ?k = "''auc_'' @ l"
    from own obtain r0 where "r0 \<in> set (rows df)" "labelled df l r0" "named df l r0"
      by blast
    then have "?k \<in> {k. \<exists>r \<in> set (rows df). \<exists>l n. labelled df l r \<and> named df n r \<and>
           k = (if n = l then ''auc_'' @ l else ''auc_'' @ l @ ''_'' @ n)}"
      by (intro CollectI bexI [of _ r0] exI [of _ l]) simp_all
    then have "?k \<in> fst ` set res"
      unfolding eval_gold_keys [OF ev] by (rule UnI2)
    from map_of_fst_image [OF this] obtain v where v: "map_of res ?k = Some v" by blast
    have J: "map_of ?J ?k = Some v"
      using v by (simp add: update_conv')
    from eval_gold_sound [OF ev v]
    consider (avg) "?k = ''avg_diff''"
      | (all) "?k = ''auc_all''"
          "\<not> (\<exists>r \<in> set (rows df). labelled df ''all'' r \<and> named df ''all'' r)"
      | (entry) r' l' n' a where "r' \<in> set (rows df)" "labelled df l' r'" "named df n' r'"
        "?k = (if n' = l' then ''auc_'' @ l' else ''auc_'' @ l' @ ''_'' @ n')"
        "calculate_auc roc
           (df\<lparr>rows := filter (\<lambda>r. labelled df l' r \<and> (n' = l' \<or> named df n' r)) (rows df)\<rparr>)
           = Inr a" "v = F a"
      by blast
    then show ?thesis
    proof cases
      case avg
      then show ?thesis by simp
    next
      case all
      from all(1) have "l = ''all''" by simp
      with own all(2) show ?thesis by blast
    next
      case entry
      show ?thesis
      proof (cases "n' = l'")
        case True
        with entry(4) have "l' = l" by simp
        with True entry(5,6) J show ?thesis by simp
      next
        case False
        with entry(4) have "l' @ ''_'' @ n' = l" by simp
        with u entry(1-3) False show ?thesis by blast
      qed
    qed
  qed
  show ?thesis
  proof (intro exI [of _ ?J] exI [of _ df] conjI allI impI)
    show "ws = [(eval_path FLAGS, Json ?J), (output_path FLAGS, Csv df)]"
      by (rule ws)
    show "fst ` set ?J = {''avg_diff'', ''auc_all'', ''gold_path''}
       \<union> {k. \<exists>r \<in> set (rows df). \<exists>l. labelled df l r \<and> named df l r \<and> k = ''auc_'' @ l}
       \<union> {k. \<exists>r \<in> set (rows df). \<exists>l n. labelled df l r \<and> named df n r \<and> n \<noteq> l \<and>
               k = ''auc_'' @ l @ ''_'' @ n}"
      by (rule keys)
    fix l
    assume h: "(\<exists>r \<in> set (rows df). labelled df l r \<and> named df l r) \<and>
          (\<forall>r \<in> set (rows df). \<forall>l' n'. labelled df l' r \<and> named df n' r \<and> n' \<noteq> l' \<longrightarrow>
             l' @ ''_'' @ n' \<noteq> l)"
    show "\<exists>a. map_of ?J (''auc_'' @ l) = Some (F a) \<and>
             calculate_auc roc (df\<lparr>rows := filter (labelled df l) (rows df)\<rparr>) = Inr a"
      by (rule val [OF h [THEN conjunct1] h [THEN conjunct2]])
  qed
qed

theorem json_keys_witness:
  "main roc_auc_ref parse_none runner_example write_ok flags_example fs_example
     = ([(''job/gold_eval.json'', Json (results_example @ [(''gold_path'', S ''gold.csv'')])),
         (''gold_scored.csv'', Csv evaluated_example)], Inr ())
   \<and> map fst (results_example @ [(''gold_path'', S ''gold.csv'')])
       = [''avg_diff'', ''auc_all'', ''auc_threat'', ''auc_obscene'', ''auc_insult_personal'',
          ''gold_path'']
   \<and> map_of (results_example @ [(''gold_path'', S ''gold.csv'')]) ''auc_threat'' = Some (F 1)
   \<and> calculate_auc roc_auc_ref
        (evaluated_example\<lparr>rows := filter (labelled evaluated_example ''threat'')
                                     (rows evaluated_example)\<rparr>) = Inr 1"
proof -
  have keys: "map fst (results_example @ [(''gold_path'', S ''gold.csv'')])
       = [''avg_diff'', ''auc_all'', ''auc_threat'', ''auc_obscene'', ''auc_insult_personal'',
          ''gold_path'']"
    "map_of (results_example @ [(''gold_path'', S ''gold.csv'')]) ''auc_threat'' = Some (F 1)"
    by (simp_all add: results_example_def)
  have auc: "calculate_auc roc_auc_ref
        (evaluated_example\<lparr>rows := filter (labelled evaluated_example ''threat'')
                                     (rows evaluated_example)\<rparr>) = Inr 1"
    by (simp add: run_defs evaluated_example_def labelled_def [abs_def])
  from json_keys [OF main_example] show ?thesis
  proof (elim exE conjE)
    show ?thesis using main_example keys auc by simp
  qed
qed

text \<open>
  C6 states that the \<open>name\<close> column is optional: on a gold input without it,
  \<open>score_gold\<close> followed by \<open>eval_gold\<close> still succeeds. The code does the opposite.
  Whenever the gold input has at least one row and neither it nor the model's labels
  have a column \<open>name\<close>, \<open>eval_gold\<close> raises on the scored frame: line 80 reads
  \<open>df_label['name']\<close> for the first label.
\<close>

theorem eval_gold_raises_without_name:
  assumes "''name'' \<notin> set (columns df_gold)" and "''name'' \<notin> set (labels m)"
    and "rows df_gold \<noteq> []" and "score_gold df_gold m = Inr dfs"
  shows "\<exists>e. eval_gold roc pf dfs = Inl e"
proof -
  from columns_score_gold [OF assms(4)] assms(1,2) have "''name'' \<notin> set (columns dfs)"
    by simp
  moreover from length_rows_score_gold [OF assms(4)] assms(3) have "rows dfs \<noteq> []"
    by auto
  ultimately show ?thesis by (rule eval_gold_needs_name)
qed

text \<open>On the example gold data of the script's header comment, with the default
  labels, the exception is the KeyError for \<open>name\<close>.\<close>

theorem eval_gold_raises_without_name_witness:
  "columns documented_gold = [''comment_text'', ''label'', ''gold'', ''_unit_id'']
   \<and> score_gold documented_gold default_model = Inr documented_scored
   \<and> eval_gold roc_auc_ref parse_none documented_scored = Inl (KeyError (S ''name''))"
proof -
  have sg: "score_gold documented_gold default_model = Inr documented_scored"
    by (simp add: score_gold_def documented_gold_def default_model_def documented_scored_def
        column_def row_get_def DataFrame_def concat_axis1_def pad_rows_def)
  have "''name'' \<notin> set (columns documented_gold)" "''name'' \<notin> set (labels default_model)"
    "rows documented_gold \<noteq> []"
    by (simp_all add: documented_gold_def default_model_def)
  from eval_gold_raises_without_name [OF this sg, of roc_auc_ref parse_none]
  obtain e where e: "eval_gold roc_auc_ref parse_none documented_scored = Inl e" by blast
  have "eval_gold roc_auc_ref parse_none documented_scored = Inl (KeyError (S ''name''))"
    by (simp add: run_defs documented_scored_def)
  with e sg show ?thesis by (simp add: documented_gold_def)
qed



end
